theory Spec2Isabelle
  imports Complex_Main "HOL-Library.AList" "HOL-Library.Sublist"
begin

section \<open>Remote sensing band indices: \<^verbatim>\<open>dea_bandindices.calculate_indices\<close>\<close>

text \<open>
  The module has one function, \<^verbatim>\<open>calculate_indices(ds, index, collection, custom_varname)\<close>.
  It looks the index up in a dictionary of twenty formulas, builds a rename map for the
  collection, evaluates the formula on \<^verbatim>\<open>ds.rename(bands_to_rename)/1000.0\<close> and stores the
  result in \<^verbatim>\<open>ds\<close> under the output name.

  The dataset and its arithmetic belong to the array library, not to this module. The
  model keeps them apart from the module's own logic:
  \<^item> a dataset is the ordered dictionary of its variables, an association list from band
    names to arrays (the variables are the bands; coordinates and attributes play no part
    in the function);
  \<^item> the arithmetic on arrays is a parameter (a record of operations), so that a theorem
    stated for every arithmetic holds for the library's floating point arrays as well as
    for exact numbers;
  \<^item> every \<^verbatim>\<open>raise\<close> is a value, and the function returns the state of the caller's
    dataset next to its result, because it assigns into its argument.
\<close>

subsection \<open>Array arithmetic\<close>

text \<open>
  \<open>alit c\<close> is the array a Python number \<open>c\<close> broadcasts to; the other fields are the
  operators \<^verbatim>\<open>+ - * / **\<close> on arrays.
\<close>

record 'a arith =
  alit :: "real \<Rightarrow> 'a"
  aadd :: "'a \<Rightarrow> 'a \<Rightarrow> 'a"
  asub :: "'a \<Rightarrow> 'a \<Rightarrow> 'a"
  amul :: "'a \<Rightarrow> 'a \<Rightarrow> 'a"
  adiv :: "'a \<Rightarrow> 'a \<Rightarrow> 'a"
  apow :: "'a \<Rightarrow> nat \<Rightarrow> 'a"

text \<open>
  Exact arithmetic on one pixel (no rounding, and division by zero is \<open>0\<close>, as in HOL).
  It serves the concrete instances and the algebraic identities of the \<^verbatim>\<open>AWEI_ns\<close> formula;
  the statements about what a call stores hold for every arithmetic.
\<close>

definition real_arith :: "real arith" where
  "real_arith =
     \<lparr>alit = (\<lambda>c. c), aadd = (\<lambda>x y. x + y), asub = (\<lambda>x y. x - y),
      amul = (\<lambda>x y. x * y), adiv = (\<lambda>x y. x / y), apow = (\<lambda>x n. x ^ n)\<rparr>"

text \<open>
  Elementwise arithmetic: an array is a function from pixel positions to pixel values, a
  number broadcasts to the constant array, every operator works position by position.
\<close>

definition elementwise :: "'v arith \<Rightarrow> ('p \<Rightarrow> 'v) arith" where
  "elementwise S =
     \<lparr>alit = (\<lambda>c p. alit S c),
      aadd = (\<lambda>x y p. aadd S (x p) (y p)),
      asub = (\<lambda>x y p. asub S (x p) (y p)),
      amul = (\<lambda>x y p. amul S (x p) (y p)),
      adiv = (\<lambda>x y p. adiv S (x p) (y p)),
      apow = (\<lambda>x n p. apow S (x p) n)\<rparr>"

subsection \<open>Datasets\<close>

type_synonym 'a dataset = "(string \<times> 'a) list"

text \<open>\<^verbatim>\<open>ds / 1000.0\<close>: the division is applied to every variable of the dataset.\<close>

definition rescale :: "'a arith \<Rightarrow> 'a dataset \<Rightarrow> 'a dataset" where
  "rescale A ds = map (\<lambda>(k, v). (k, adiv A v (alit A 1000))) ds"

text \<open>
  \<^verbatim>\<open>Dataset.rename(name_dict)\<close> of the array library returns a new dataset and leaves the
  receiver alone. It raises \<^verbatim>\<open>ValueError\<close> in two cases: a key of \<open>name_dict\<close> is not a
  variable of the dataset, or two variables end up with one name. The loop builds the new
  dictionary of variables in the order of the old one.
\<close>

datatype rename_error = CannotRename string | NewNameConflicts string

text \<open>\<^verbatim>\<open>name_dict.get(k, k)\<close>\<close>

definition new_name :: "(string \<times> string) list \<Rightarrow> string \<Rightarrow> string" where
  "new_name name_dict k = (case map_of name_dict k of Some n \<Rightarrow> n | None \<Rightarrow> k)"

fun rename_vars :: "(string \<times> string) list \<Rightarrow> 'a dataset \<Rightarrow> 'a dataset \<Rightarrow> rename_error + 'a dataset" where
  "rename_vars name_dict [] variables = Inr variables"
| "rename_vars name_dict ((k, v) # rest) variables =
     (let name = new_name name_dict k in
      if name \<in> set (map fst variables) then Inl (NewNameConflicts name)
      else rename_vars name_dict rest (variables @ [(name, v)]))"

definition rename :: "'a dataset \<Rightarrow> (string \<times> string) list \<Rightarrow> rename_error + 'a dataset" where
  "rename ds name_dict =
     (case filter (\<lambda>k. k \<notin> set (map fst ds)) (map fst name_dict) of
        k # _ \<Rightarrow> Inl (CannotRename k)
      | [] \<Rightarrow> rename_vars name_dict ds [])"

subsection \<open>The index formulas\<close>

text \<open>
  Each \<^verbatim>\<open>lambda ds: ...\<close> of \<^verbatim>\<open>index_dict\<close> is written as its syntax tree, with Python's
  precedence and left associativity. \<open>Band b\<close> is the attribute lookup \<^verbatim>\<open>ds.b\<close>, \<open>Const c\<close> a
  number of the source (a negative one is the literal under Python's unary minus),
  \<open>Pos\<close> the unary plus.
\<close>

datatype expr =
    Band string
  | Const real
  | Pos expr
  | Add expr expr
  | Sub expr expr
  | Mul expr expr
  | Div expr expr
  | Pow expr nat

abbreviation red :: expr where "red \<equiv> Band ''red''"
abbreviation green :: expr where "green \<equiv> Band ''green''"
abbreviation blue :: expr where "blue \<equiv> Band ''blue''"
abbreviation nir :: expr where "nir \<equiv> Band ''nir''"
abbreviation swir1 :: expr where "swir1 \<equiv> Band ''swir1''"
abbreviation swir2 :: expr where "swir2 \<equiv> Band ''swir2''"

definition index_dict :: "(string \<times> expr) list" where
  "index_dict =
    [(''NDVI'', Div (Sub nir red) (Add nir red)),
     (''EVI'', Div (Mul (Const 2.5) (Sub nir red))
                   (Add (Sub (Add nir (Mul (Const 6) red)) (Mul (Const 7.5) blue)) (Const 1))),
     (''LAI'', Sub (Mul (Const 3.618)
                        (Div (Mul (Const 2.5) (Sub nir red))
                             (Add (Sub (Add nir (Mul (Const 6) red)) (Mul (Const 7.5) blue))
                                  (Const 1))))
                   (Const 0.118)),
     (''SAVI'', Div (Mul (Const 1.5) (Sub nir red)) (Add (Add nir red) (Const 0.5))),
     (''NDMI'', Div (Sub nir swir1) (Add nir swir1)),
     (''NBR'', Div (Sub nir swir2) (Add nir swir2)),
     (''BAI'', Div (Const 1.0)
                   (Add (Pow (Sub (Const 0.10) red) 2) (Pow (Sub (Const 0.06) nir) 2))),
     (''NDBI'', Div (Sub swir1 nir) (Add swir1 nir)),
     (''NDSI'', Div (Sub green swir1) (Add green swir1)),
     (''NDWI'', Div (Sub green nir) (Add green nir)),
     (''MNDWI'', Div (Sub green swir1) (Add green swir1)),
     (''AWEI_ns'', Sub (Mul (Const 4) (Sub green swir1))
                       (Mul (Mul (Mul (Const 2.5) nir) (Pos (Const 2.75))) swir2)),
     (''AWEI_sh'', Sub (Sub (Add blue (Mul (Const 2.5) green))
                            (Mul (Const 1.5) (Add nir swir1)))
                       (Mul (Const 2.5) swir2)),
     (''WI'', Sub (Sub (Sub (Add (Add (Const 1.7204) (Mul (Const 171) green))
                                 (Mul (Const 3) red))
                            (Mul (Const 70) nir))
                       (Mul (Const 45) swir1))
                  (Mul (Const 71) swir2)),
     (''TCW'', Add (Add (Add (Add (Add (Mul (Const 0.0315) blue) (Mul (Const 0.2021) green))
                                  (Mul (Const 0.3102) red))
                             (Mul (Const 0.1594) nir))
                        (Mul (Const (- 0.6806)) swir1))
                   (Mul (Const (- 0.6109)) swir2)),
     (''TCG'', Add (Add (Add (Add (Add (Mul (Const (- 0.1603)) blue)
                                       (Mul (Const (- 0.2819)) green))
                                  (Mul (Const (- 0.4934)) red))
                             (Mul (Const 0.7940) nir))
                        (Mul (Const (- 0.0002)) swir1))
                   (Mul (Const (- 0.1446)) swir2)),
     (''TCB'', Add (Add (Add (Add (Add (Mul (Const 0.2043) blue) (Mul (Const 0.4158) green))
                                  (Mul (Const 0.5524) red))
                             (Mul (Const 0.5741) nir))
                        (Mul (Const 0.3124) swir1))
                   (Mul (Const (- 0.2303)) swir2)),
     (''CMR'', Div swir1 swir2),
     (''FMR'', Div swir1 nir),
     (''IOR'', Div red blue)]"

text \<open>
  Evaluation of a formula on a dataset. \<open>None\<close> is the \<^verbatim>\<open>AttributeError\<close> of a lookup
  \<^verbatim>\<open>ds.b\<close> for a name \<open>b\<close> that is not a variable; it ends the evaluation wherever it
  occurs. The arithmetic itself does not raise (a division by zero gives an array value,
  whatever the arithmetic makes of it).
\<close>

definition lift2 :: "('a \<Rightarrow> 'a \<Rightarrow> 'a) \<Rightarrow> 'a option \<Rightarrow> 'a option \<Rightarrow> 'a option" where
  "lift2 f x y =
     (case x of None \<Rightarrow> None
      | Some a \<Rightarrow> (case y of None \<Rightarrow> None | Some b \<Rightarrow> Some (f a b)))"

fun eval :: "'a arith \<Rightarrow> 'a dataset \<Rightarrow> expr \<Rightarrow> 'a option" where
  "eval A ds (Band b) = map_of ds b"
| "eval A ds (Const c) = Some (alit A c)"
| "eval A ds (Pos e) = eval A ds e"
| "eval A ds (Add x y) = lift2 (aadd A) (eval A ds x) (eval A ds y)"
| "eval A ds (Sub x y) = lift2 (asub A) (eval A ds x) (eval A ds y)"
| "eval A ds (Mul x y) = lift2 (amul A) (eval A ds x) (eval A ds y)"
| "eval A ds (Div x y) = lift2 (adiv A) (eval A ds x) (eval A ds y)"
| "eval A ds (Pow x n) = map_option (\<lambda>a. apow A a n) (eval A ds x)"

text \<open>The band names a formula looks up.\<close>

fun bands_of :: "expr \<Rightarrow> string set" where
  "bands_of (Band b) = {b}"
| "bands_of (Const c) = {}"
| "bands_of (Pos e) = bands_of e"
| "bands_of (Add x y) = bands_of x \<union> bands_of y"
| "bands_of (Sub x y) = bands_of x \<union> bands_of y"
| "bands_of (Mul x y) = bands_of x \<union> bands_of y"
| "bands_of (Div x y) = bands_of x \<union> bands_of y"
| "bands_of (Pow x n) = bands_of x"

subsection \<open>Errors\<close>

text \<open>
  The five \<^verbatim>\<open>raise ValueError(...)\<close> statements of the function, each with the values its
  message interpolates, and the message text itself.
\<close>

datatype error =
    NoIndexProvided
  | InvalidIndex string
  | NoCollectionProvided
  | InvalidCollection string
  | BandsMissing string

fun message :: "error \<Rightarrow> string" where
  "message NoIndexProvided =
     ''No remote sensing `index` was provided. Please '' @
     ''refer to the function \<newline>documentation for a full '' @
     ''list of valid options for `index` (e.g. 'NDVI')''"
| "message (InvalidIndex index) =
     ''The selected index '' @ [CHR 0x27] @ index @ ''' is not one of the '' @
     ''valid remote sensing index options. \<newline>Please '' @
     ''refer to the function documentation for a full '' @
     ''list of valid options for `index`''"
| "message NoCollectionProvided =
     '''No `collection` was provided. Please specify '' @
     ''either 'ga_landsat_2', 'ga_landsat_3' \<newline>or '' @
     '''ga_sentinel2_1' to ensure the function calculates '' @
     ''indices using the correct spectral bands''"
| "message (InvalidCollection collection) =
     [CHR 0x27] @ collection @ ''' is not a valid option for '' @
     ''`collection`. Please specify either \<newline>'' @
     '''ga_landsat_2', 'ga_landsat_3' or '' @
     '''ga_sentinel2_1'' @ [CHR 0x27]"
| "message (BandsMissing index) =
     ''Please verify that all bands required to '' @
     ''compute '' @ index @ '' are present in `ds`. \<newline>'' @
     ''These bands may vary depending on the `collection` '' @
     ''(e.g. the Landsat `nbart_nir` band \<newline>'' @
     ''is equivelent to `nbart_nir_1` for Sentinel 2)''"

text \<open>
  What reaches the caller: an error of the function's own, or the \<^verbatim>\<open>ValueError\<close> of
  \<^verbatim>\<open>Dataset.rename\<close>, which the \<^verbatim>\<open>except AttributeError\<close> clause does not catch.
\<close>

datatype failure = Raised error | RenameFailed rename_error

subsection \<open>The function\<close>

definition landsat_3_bandnames :: "(string \<times> string) list" where
  "landsat_3_bandnames =
    [(''nbart_nir'', ''nir''), (''nbart_red'', ''red''), (''nbart_green'', ''green''),
     (''nbart_blue'', ''blue''), (''nbart_swir_1'', ''swir1''), (''nbart_swir_2'', ''swir2''),
     (''nbar_red'', ''red''), (''nbar_green'', ''green''), (''nbar_blue'', ''blue''),
     (''nbar_nir'', ''nir''), (''nbar_swir_1'', ''swir1''), (''nbar_swir_2'', ''swir2'')]"

definition sentinel2_1_bandnames :: "(string \<times> string) list" where
  "sentinel2_1_bandnames =
    [(''nbart_red'', ''red''), (''nbart_green'', ''green''), (''nbart_blue'', ''blue''),
     (''nbart_nir_1'', ''nir''), (''nbart_swir_2'', ''swir1''), (''nbart_swir_3'', ''swir2''),
     (''nbar_red'', ''red''), (''nbar_green'', ''green''), (''nbar_blue'', ''blue''),
     (''nbar_nir'', ''nir''), (''nbar_swir_2'', ''swir1''), (''nbar_swir_3'', ''swir2'')]"

text \<open>
  \<^verbatim>\<open>{a: b for a, b in bandnames_dict.items() if a in ds.variables}\<close>
\<close>

definition present_bands :: "'a dataset \<Rightarrow> (string \<times> string) list \<Rightarrow> (string \<times> string) list" where
  "present_bands ds bandnames_dict = filter (\<lambda>(a, b). a \<in> set (map fst ds)) bandnames_dict"

text \<open>\<^verbatim>\<open>custom_varname if custom_varname else index\<close>: the empty string is false in Python.\<close>

definition output_band_name :: "string option \<Rightarrow> string \<Rightarrow> string" where
  "output_band_name custom_varname index =
     (case custom_varname of
        None \<Rightarrow> index
      | Some n \<Rightarrow> if n \<noteq> [] then n else index)"

text \<open>
  The result of a call: the caller's dataset as the call leaves it, and what the call
  raised or returned. The returned dataset is the caller's object itself.
\<close>

type_synonym 'a outcome = "'a dataset \<times> (failure + 'a dataset)"

text \<open>
  The \<^verbatim>\<open>try\<close> block and the assignment after it (source lines 254 to 269).
  \<^verbatim>\<open>ds[output_band_name] = index_array\<close> replaces the value of an existing key where it stands
  and appends a new one, which is \<open>AList.update\<close>.
\<close>

definition apply_index :: "'a arith \<Rightarrow> 'a dataset \<Rightarrow> string \<Rightarrow> expr \<Rightarrow> (string \<times> string) list \<Rightarrow>
    string option \<Rightarrow> 'a outcome" where
  "apply_index A ds index index_func bands_to_rename custom_varname =
     (case rename ds bands_to_rename of
        Inl e \<Rightarrow> (ds, Inl (RenameFailed e))
      | Inr renamed \<Rightarrow>
          (case eval A (rescale A renamed) index_func of
             None \<Rightarrow> (ds, Inl (Raised (BandsMissing index)))
           | Some index_array \<Rightarrow>
               (let ds' = AList.update (output_band_name custom_varname index) index_array ds
                in (ds', Inr ds'))))"

text \<open>
  The validation and the dispatch on the collection (source lines 167 to 252), in the
  order of the source's \<^verbatim>\<open>if\<close>/\<^verbatim>\<open>elif\<close> chains. \<^verbatim>\<open>index_dict.get(None)\<close> is \<^verbatim>\<open>None\<close>.
\<close>

definition calculate_indices :: "'a arith \<Rightarrow> 'a dataset \<Rightarrow> string option \<Rightarrow> string option \<Rightarrow>
    string option \<Rightarrow> 'a outcome" where
  "calculate_indices A ds index collection custom_varname =
     (case index of
        None \<Rightarrow> (ds, Inl (Raised NoIndexProvided))
      | Some i \<Rightarrow>
          (case map_of index_dict i of
             None \<Rightarrow> (ds, Inl (Raised (InvalidIndex i)))
           | Some index_func \<Rightarrow>
               (case collection of
                  None \<Rightarrow> (ds, Inl (Raised NoCollectionProvided))
                | Some c \<Rightarrow>
                    if c = ''ga_landsat_3'' then
                      apply_index A ds i index_func (present_bands ds landsat_3_bandnames)
                        custom_varname
                    else if c = ''ga_sentinel2_1'' then
                      apply_index A ds i index_func (present_bands ds sentinel2_1_bandnames)
                        custom_varname
                    else if c = ''ga_landsat_2'' then
                      apply_index A ds i index_func [] custom_varname
                    else (ds, Inl (Raised (InvalidCollection c))))))"

text \<open>
  The rename table that the \<^verbatim>\<open>if\<close>/\<^verbatim>\<open>elif\<close> chain selects for a valid collection, for use
  in the statements below (\<^verbatim>\<open>ga_landsat_2\<close> renames nothing).
\<close>

definition collection_bandnames :: "string \<Rightarrow> (string \<times> string) list" where
  "collection_bandnames c =
     (if c = ''ga_landsat_3'' then landsat_3_bandnames
      else if c = ''ga_sentinel2_1'' then sentinel2_1_bandnames
      else [])"

section \<open>Basic facts\<close>

lemma lift2_simps [simp]:
  "lift2 f None y = None" "lift2 f x None = None" "lift2 f (Some a) (Some b) = Some (f a b)"
  by (simp_all add: lift2_def split: option.splits)

lemma lift2_eq_None_iff: "lift2 f x y = None \<longleftrightarrow> x = None \<or> y = None"
  by (simp add: lift2_def split: option.splits)

lemma elementwise_simps [simp]:
  "alit (elementwise S) c = (\<lambda>p. alit S c)"
  "aadd (elementwise S) x y = (\<lambda>p. aadd S (x p) (y p))"
  "asub (elementwise S) x y = (\<lambda>p. asub S (x p) (y p))"
  "amul (elementwise S) x y = (\<lambda>p. amul S (x p) (y p))"
  "adiv (elementwise S) x y = (\<lambda>p. adiv S (x p) (y p))"
  "apow (elementwise S) x n = (\<lambda>p. apow S (x p) n)"
  by (simp_all add: elementwise_def)

lemma real_arith_simps [simp]:
  "alit real_arith c = c"
  "aadd real_arith x y = x + y"
  "asub real_arith x y = x - y"
  "amul real_arith x y = x * y"
  "adiv real_arith x y = x / y"
  "apow real_arith x n = x ^ n"
  by (simp_all add: real_arith_def)

text \<open>A formula fails exactly when one of the bands it looks up is not in the dataset.\<close>

lemma eval_None_iff: "eval A ds e = None \<longleftrightarrow> \<not> bands_of e \<subseteq> set (map fst ds)"
  by (induction e) (auto simp: lift2_eq_None_iff map_of_eq_None_iff)

lemma map_of_rescale:
  "map_of (rescale A ds) k = map_option (\<lambda>v. adiv A v (alit A 1000)) (map_of ds k)"
  by (simp add: rescale_def map_of_map)

lemma keys_rescale: "map fst (rescale A ds) = map fst ds"
  by (simp add: rescale_def case_prod_unfold comp_def)

text \<open>
  The renaming loop succeeds exactly when the new names are pairwise distinct, and then
  it relabels every variable where it stands.
\<close>

lemma rename_vars_Inr_iff:
  "rename_vars nd ds acc = Inr r \<longleftrightarrow>
     r = acc @ map (\<lambda>(k, v). (new_name nd k, v)) ds \<and>
     distinct (map (new_name nd \<circ> fst) ds) \<and>
     set (map fst acc) \<inter> set (map (new_name nd \<circ> fst) ds) = {}"
proof (induction ds arbitrary: acc)
  case Nil
  show ?case by auto
next
  case (Cons p ds)
  obtain k v where p: "p = (k, v)" by (cases p)
  show ?case
    unfolding p by (auto simp: Let_def Cons.IH)
qed

lemma rename_empty: "distinct (map fst ds) \<Longrightarrow> rename ds [] = Inr ds"
  by (simp add: rename_def rename_vars_Inr_iff new_name_def comp_def case_prod_unfold)

lemma present_bands_Nil [simp]: "present_bands ds [] = []"
  by (simp add: present_bands_def)

lemma index_codes:
  "map fst index_dict =
     [''NDVI'', ''EVI'', ''LAI'', ''SAVI'', ''NDMI'', ''NBR'', ''BAI'', ''NDBI'', ''NDSI'',
      ''NDWI'', ''MNDWI'', ''AWEI_ns'', ''AWEI_sh'', ''WI'', ''TCW'', ''TCG'', ''TCB'', ''CMR'',
      ''FMR'', ''IOR'']"
  by (simp add: index_dict_def)

text \<open>A call either raises and leaves the dataset alone, or stores one band and returns.\<close>

lemma apply_index_cases:
  "(\<exists>e. apply_index A ds i f btr cv = (ds, Inl e)) \<or>
   (\<exists>arr. apply_index A ds i f btr cv =
      (AList.update (output_band_name cv i) arr ds,
       Inr (AList.update (output_band_name cv i) arr ds)))"
  by (auto simp: apply_index_def Let_def split: sum.splits option.splits)

lemma calculate_indices_cases:
  "(\<exists>e. calculate_indices A ds index c cv = (ds, Inl e)) \<or>
   (\<exists>i arr. index = Some i \<and> calculate_indices A ds index c cv =
      (AList.update (output_band_name cv i) arr ds,
       Inr (AList.update (output_band_name cv i) arr ds)))"
  using apply_index_cases [of A ds _ _ _ cv]
  by (simp add: calculate_indices_def split: option.splits)

lemma calculate_indices_valid:
  assumes "map_of index_dict i = Some f"
    and "c \<in> {''ga_landsat_2'', ''ga_landsat_3'', ''ga_sentinel2_1''}"
  shows "calculate_indices A ds (Some i) (Some c) cv =
           apply_index A ds i f (present_bands ds (collection_bandnames c)) cv"
  using assms by (auto simp: calculate_indices_def collection_bandnames_def)

lemma calculate_indices_landsat_2:
  assumes "distinct (map fst ds)" and "map_of index_dict i = Some f"
    and "eval A (rescale A ds) f = Some arr"
  shows "calculate_indices A ds (Some i) (Some ''ga_landsat_2'') cv =
           (AList.update (output_band_name cv i) arr ds,
            Inr (AList.update (output_band_name cv i) arr ds))"
  using assms by (simp add: calculate_indices_def apply_index_def rename_empty Let_def)

lemma index_dict_NDVI: "map_of index_dict ''NDVI'' = Some (Div (Sub nir red) (Add nir red))"
  by (simp add: index_dict_def)

lemmas run_defs = calculate_indices_def apply_index_def rename_def rescale_def
  output_band_name_def new_name_def present_bands_def landsat_3_bandnames_def
  sentinel2_1_bandnames_def index_dict_def Let_def

text \<open>The text of the missing-band message around the interpolated index.\<close>

lemma message_BandsMissing_names_index: "sublist i (message (BandsMissing i))"
proof -
  have "sublist i (''Please verify that all bands required to compute '' @ i @
      '' are present in `ds`. \<newline>These bands may vary depending on the `collection` (e.g. the Landsat `nbart_nir` band \<newline>is equivelent to `nbart_nir_1` for Sentinel 2)'')"
    by (rule sublist_appendI)
  then show ?thesis by simp
qed

lemma message_BandsMissing_notes_collections:
  "sublist ''These bands may vary depending on the `collection`'' (message (BandsMissing i))"
proof -
  have "sublist ''These bands may vary depending on the `collection`''
     ((''Please verify that all bands required to compute '' @ i @
      '' are present in `ds`. \<newline>'') @ ''These bands may vary depending on the `collection`'' @
      '' (e.g. the Landsat `nbart_nir` band \<newline>is equivelent to `nbart_nir_1` for Sentinel 2)'')"
    by (rule sublist_appendI)
  then show ?thesis by simp
qed

lemma index_dict_AWEI_ns:
  "map_of index_dict ''AWEI_ns'' =
     Some (Sub (Mul (Const 4) (Sub green swir1))
               (Mul (Mul (Mul (Const 2.5) nir) (Pos (Const 2.75))) swir2))"
  by (simp add: index_dict_def)

text \<open>Every registered formula reads canonical bands only.\<close>

lemma registered_bands:
  assumes "map_of index_dict i = Some f"
  shows "bands_of f \<subseteq> {''red'', ''green'', ''blue'', ''nir'', ''swir1'', ''swir2''}"
proof -
  have "(i, f) \<in> set index_dict" using assms by (rule map_of_SomeD)
  then show ?thesis unfolding index_dict_def by auto
qed

lemma rename_landsat_3_nbart:
  "rename [(''nbart_red'', r'), (''nbart_green'', g'), (''nbart_blue'', b'),
           (''nbart_nir'', n'), (''nbart_swir_1'', s1'), (''nbart_swir_2'', s2')]
     (present_bands [(''nbart_red'', r'), (''nbart_green'', g'), (''nbart_blue'', b'),
           (''nbart_nir'', n'), (''nbart_swir_1'', s1'), (''nbart_swir_2'', s2')]
        landsat_3_bandnames) =
   Inr [(''red'', r'), (''green'', g'), (''blue'', b'), (''nir'', n'), (''swir1'', s1'),
        (''swir2'', s2')]"
  by (simp add: rename_def present_bands_def landsat_3_bandnames_def new_name_def)

lemma update_fresh: "k \<notin> set (map fst ds) \<Longrightarrow> AList.update k v ds = ds @ [(k, v)]"
  by (induction ds) auto

text \<open>What the renaming does to names, and when a call returns.\<close>

lemma new_name_notin:
  assumes "k \<notin> set (map fst nd)"
  shows "new_name nd k = k"
proof -
  have "map_of nd k = None" using assms by (simp add: map_of_eq_None_iff)
  then show ?thesis by (simp add: new_name_def)
qed

lemma new_name_cases: "new_name nd k = k \<or> new_name nd k \<in> set (map snd nd)"
proof (cases "map_of nd k")
  case None
  then show ?thesis by (simp add: new_name_def)
next
  case (Some n)
  then have "(k, n) \<in> set nd" by (rule map_of_SomeD)
  then have "n \<in> set (map snd nd)" by force
  with Some show ?thesis by (simp add: new_name_def)
qed

lemma present_bands_subset: "set (present_bands ds bn) \<subseteq> set bn"
  by (auto simp: present_bands_def)


lemma rename_Inr_iff:
  "rename ds nd = Inr view \<longleftrightarrow>
     set (map fst nd) \<subseteq> set (map fst ds) \<and>
     distinct (map (new_name nd \<circ> fst) ds) \<and>
     view = map (\<lambda>(k, v). (new_name nd k, v)) ds"
proof -
  have "filter (\<lambda>k. k \<notin> set (map fst ds)) (map fst nd) = [] \<longleftrightarrow>
      set (map fst nd) \<subseteq> set (map fst ds)"
    by (auto simp: filter_empty_conv)
  then show ?thesis
    by (cases "filter (\<lambda>k. k \<notin> set (map fst ds)) (map fst nd)")
      (auto simp: rename_def rename_vars_Inr_iff)
qed

lemma keys_renamed:
  "map fst (map (\<lambda>(k, v). (new_name nd k, v)) ds) = map (new_name nd \<circ> fst) ds"
  by (simp add: case_prod_unfold comp_def)

lemma apply_index_success:
  assumes "rename ds btr = Inr view" and "bands_of f \<subseteq> set (map fst view)"
  shows "\<exists>arr. eval A (rescale A view) f = Some arr \<and>
           apply_index A ds i f btr cv =
             (AList.update (output_band_name cv i) arr ds,
              Inr (AList.update (output_band_name cv i) arr ds))"
proof -
  have "eval A (rescale A view) f \<noteq> None"
    using assms(2) by (simp add: eval_None_iff keys_rescale)
  then obtain arr where "eval A (rescale A view) f = Some arr" by blast
  then show ?thesis by (simp add: apply_index_def assms(1) Let_def)
qed

lemma apply_index_returns:
  assumes "apply_index A ds i f btr cv = (ds1, Inr r)"
  shows "\<exists>view arr. rename ds btr = Inr view \<and> eval A (rescale A view) f = Some arr \<and>
           bands_of f \<subseteq> set (map fst view) \<and>
           ds1 = AList.update (output_band_name cv i) arr ds \<and> r = ds1"
proof -
  from assms obtain view where view: "rename ds btr = Inr view"
    by (auto simp: apply_index_def split: sum.splits)
  with assms obtain arr where arr: "eval A (rescale A view) f = Some arr"
    by (auto simp: apply_index_def split: option.splits)
  then have "bands_of f \<subseteq> set (map fst view)"
    using eval_None_iff [of A "rescale A view" f] by (simp add: keys_rescale)
  with assms view arr show ?thesis by (auto simp: apply_index_def Let_def)
qed

lemma calculate_indices_returns:
  assumes "calculate_indices A ds (Some i) (Some c) cv = (ds1, Inr r)"
  shows "\<exists>f. map_of index_dict i = Some f \<and>
           c \<in> {''ga_landsat_2'', ''ga_landsat_3'', ''ga_sentinel2_1''} \<and>
           apply_index A ds i f (present_bands ds (collection_bandnames c)) cv = (ds1, Inr r)"
  using assms
  by (auto simp: calculate_indices_def collection_bandnames_def split: option.splits if_splits)

text \<open>The \<^verbatim>\<open>nbar_*\<close> part of the Landsat 3 table.\<close>

lemma disjointD: "K \<inter> B = {} \<Longrightarrow> x \<in> B \<Longrightarrow> x \<notin> K"
  by blast

lemma landsat_3_nbar_new_name:
  "new_name [(''nbar_red'', ''red''), (''nbar_green'', ''green''), (''nbar_blue'', ''blue''),
      (''nbar_nir'', ''nir''), (''nbar_swir_1'', ''swir1''), (''nbar_swir_2'', ''swir2'')] k =
   (if k = ''nbar_red'' then ''red'' else if k = ''nbar_green'' then ''green''
    else if k = ''nbar_blue'' then ''blue'' else if k = ''nbar_nir'' then ''nir''
    else if k = ''nbar_swir_1'' then ''swir1'' else if k = ''nbar_swir_2'' then ''swir2''
    else k)"
  by (simp add: new_name_def)

lemma landsat_3_nbar_inj:
  assumes "''red'' \<notin> K" "''green'' \<notin> K" "''blue'' \<notin> K" "''nir'' \<notin> K" "''swir1'' \<notin> K"
    "''swir2'' \<notin> K"
  shows "inj_on (new_name [(''nbar_red'', ''red''), (''nbar_green'', ''green''),
      (''nbar_blue'', ''blue''), (''nbar_nir'', ''nir''), (''nbar_swir_1'', ''swir1''),
      (''nbar_swir_2'', ''swir2'')]) K"
proof -
  let ?btr = "[(''nbar_red'', ''red''), (''nbar_green'', ''green''), (''nbar_blue'', ''blue''),
            (''nbar_nir'', ''nir''), (''nbar_swir_1'', ''swir1''), (''nbar_swir_2'', ''swir2'')]"
  let ?undo = "\<lambda>n. if n = ''red'' then ''nbar_red'' else if n = ''green'' then ''nbar_green''
    else if n = ''blue'' then ''nbar_blue'' else if n = ''nir'' then ''nbar_nir''
    else if n = ''swir1'' then ''nbar_swir_1'' else if n = ''swir2'' then ''nbar_swir_2''
    else n"
  have undo: "?undo (new_name ?btr x) = x" if "x \<in> K" for x
  proof -
    have "x \<noteq> ''red''" "x \<noteq> ''green''" "x \<noteq> ''blue''" "x \<noteq> ''nir''" "x \<noteq> ''swir1''"
      "x \<noteq> ''swir2''"
      using that assms by blast+
    then show ?thesis
      unfolding landsat_3_nbar_new_name by simp
  qed
  show ?thesis
    by (rule inj_on_inverseI [where g = ?undo]) (rule undo)
qed

lemma landsat_3_nbar_image:
  assumes present: "''nbar_red'' \<in> K" "''nbar_green'' \<in> K" "''nbar_blue'' \<in> K"
    "''nbar_nir'' \<in> K" "''nbar_swir_1'' \<in> K" "''nbar_swir_2'' \<in> K"
  shows "{''red'', ''green'', ''blue'', ''nir'', ''swir1'', ''swir2''} \<subseteq>
    new_name [(''nbar_red'', ''red''), (''nbar_green'', ''green''), (''nbar_blue'', ''blue''),
      (''nbar_nir'', ''nir''), (''nbar_swir_1'', ''swir1''), (''nbar_swir_2'', ''swir2'')] ` K"
proof -
  let ?btr = "[(''nbar_red'', ''red''), (''nbar_green'', ''green''), (''nbar_blue'', ''blue''),
            (''nbar_nir'', ''nir''), (''nbar_swir_1'', ''swir1''), (''nbar_swir_2'', ''swir2'')]"
  have "''red'' \<in> new_name ?btr ` K"
    by (rule image_eqI [where x = "''nbar_red''"]) (simp add: new_name_def, rule present(1))
  moreover have "''green'' \<in> new_name ?btr ` K"
    by (rule image_eqI [where x = "''nbar_green''"]) (simp add: new_name_def, rule present(2))
  moreover have "''blue'' \<in> new_name ?btr ` K"
    by (rule image_eqI [where x = "''nbar_blue''"]) (simp add: new_name_def, rule present(3))
  moreover have "''nir'' \<in> new_name ?btr ` K"
    by (rule image_eqI [where x = "''nbar_nir''"]) (simp add: new_name_def, rule present(4))
  moreover have "''swir1'' \<in> new_name ?btr ` K"
    by (rule image_eqI [where x = "''nbar_swir_1''"]) (simp add: new_name_def, rule present(5))
  moreover have "''swir2'' \<in> new_name ?btr ` K"
    by (rule image_eqI [where x = "''nbar_swir_2''"]) (simp add: new_name_def, rule present(6))
  ultimately show ?thesis by blast
qed

lemma landsat_3_nbar_facts:
  assumes "{''nbar_red'', ''nbar_green'', ''nbar_blue'', ''nbar_nir'', ''nbar_swir_1'',
          ''nbar_swir_2''} \<subseteq> K"
    and "K \<inter>
         {''nbart_red'', ''nbart_green'', ''nbart_blue'', ''nbart_nir'', ''nbart_swir_1'',
          ''nbart_swir_2'', ''red'', ''green'', ''blue'', ''nir'', ''swir1'', ''swir2''} = {}"
  shows "''nbar_red'' \<in> K" "''nbar_green'' \<in> K" "''nbar_blue'' \<in> K"
    "''nbar_nir'' \<in> K" "''nbar_swir_1'' \<in> K" "''nbar_swir_2'' \<in> K"
    "''nbart_red'' \<notin> K" "''nbart_green'' \<notin> K" "''nbart_blue'' \<notin> K"
    "''nbart_nir'' \<notin> K" "''nbart_swir_1'' \<notin> K" "''nbart_swir_2'' \<notin> K"
    "''red'' \<notin> K" "''green'' \<notin> K" "''blue'' \<notin> K"
    "''nir'' \<notin> K" "''swir1'' \<notin> K" "''swir2'' \<notin> K"
proof -
  show "''nbar_red'' \<in> K" by (rule subsetD [OF assms(1)]) simp
  show "''nbar_green'' \<in> K" by (rule subsetD [OF assms(1)]) simp
  show "''nbar_blue'' \<in> K" by (rule subsetD [OF assms(1)]) simp
  show "''nbar_nir'' \<in> K" by (rule subsetD [OF assms(1)]) simp
  show "''nbar_swir_1'' \<in> K" by (rule subsetD [OF assms(1)]) simp
  show "''nbar_swir_2'' \<in> K" by (rule subsetD [OF assms(1)]) simp
  show "''nbart_red'' \<notin> K" by (rule disjointD [OF assms(2)]) simp
  show "''nbart_green'' \<notin> K" by (rule disjointD [OF assms(2)]) simp
  show "''nbart_blue'' \<notin> K" by (rule disjointD [OF assms(2)]) simp
  show "''nbart_nir'' \<notin> K" by (rule disjointD [OF assms(2)]) simp
  show "''nbart_swir_1'' \<notin> K" by (rule disjointD [OF assms(2)]) simp
  show "''nbart_swir_2'' \<notin> K" by (rule disjointD [OF assms(2)]) simp
  show "''red'' \<notin> K" by (rule disjointD [OF assms(2)]) simp
  show "''green'' \<notin> K" by (rule disjointD [OF assms(2)]) simp
  show "''blue'' \<notin> K" by (rule disjointD [OF assms(2)]) simp
  show "''nir'' \<notin> K" by (rule disjointD [OF assms(2)]) simp
  show "''swir1'' \<notin> K" by (rule disjointD [OF assms(2)]) simp
  show "''swir2'' \<notin> K" by (rule disjointD [OF assms(2)]) simp
qed

text \<open>
  The index codes are not band names, and storing a band under a name outside the rename
  table changes neither the filtered table nor the success of the renaming.
\<close>

lemma band_names:
  "set (map fst (collection_bandnames c)) \<union> set (map snd (collection_bandnames c)) \<subseteq>
   set [''nbart_nir'', ''nbart_red'', ''nbart_green'', ''nbart_blue'', ''nbart_swir_1'',
        ''nbart_swir_2'', ''nbart_nir_1'', ''nbart_swir_3'', ''nbar_red'', ''nbar_green'',
        ''nbar_blue'', ''nbar_nir'', ''nbar_swir_1'', ''nbar_swir_2'', ''nbar_swir_3'',
        ''red'', ''green'', ''blue'', ''nir'', ''swir1'', ''swir2'']"
proof (cases "c = ''ga_landsat_3''")
  case True
  then show ?thesis by (simp add: collection_bandnames_def landsat_3_bandnames_def)
next
  case False
  show ?thesis
  proof (cases "c = ''ga_sentinel2_1''")
    case True
    then show ?thesis by (simp add: collection_bandnames_def sentinel2_1_bandnames_def)
  next
    case False
    with \<open>c \<noteq> ''ga_landsat_3''\<close> show ?thesis by (simp add: collection_bandnames_def)
  qed
qed

lemma codes_are_not_band_names:
  "\<forall>i \<in> set (map fst index_dict). i \<notin>
   set [''nbart_nir'', ''nbart_red'', ''nbart_green'', ''nbart_blue'', ''nbart_swir_1'',
        ''nbart_swir_2'', ''nbart_nir_1'', ''nbart_swir_3'', ''nbar_red'', ''nbar_green'',
        ''nbar_blue'', ''nbar_nir'', ''nbar_swir_1'', ''nbar_swir_2'', ''nbar_swir_3'',
        ''red'', ''green'', ''blue'', ''nir'', ''swir1'', ''swir2'']"
  unfolding index_codes by simp

lemma index_code_not_band_name:
  assumes "map_of index_dict i = Some f"
  shows "i \<notin> set (map fst (collection_bandnames c)) \<union> set (map snd (collection_bandnames c))"
proof -
  have "i \<in> set (map fst index_dict)"
    using assms by (metis map_of_eq_None_iff option.distinct(1) set_map)
  with codes_are_not_band_names band_names [of c] show ?thesis by blast
qed

lemma present_bands_update:
  assumes "out \<notin> set (map fst bn)"
  shows "present_bands (AList.update out arr ds) bn = present_bands ds bn"
proof -
  have "(a \<in> set (map fst (AList.update out arr ds))) = (a \<in> set (map fst ds))"
    if "(a, b) \<in> set bn" for a b
  proof -
    have "a \<noteq> out" using that assms by force
    then show ?thesis by (auto simp: update_keys)
  qed
  then have same: "(a \<in> set (map fst (AList.update out arr ds))) = (a \<in> set (map fst ds))"
    if "(a, b) \<in> set bn" for a b
    using that by blast
  show ?thesis
    unfolding present_bands_def
  proof (rule filter_cong [OF refl])
    fix x assume x: "x \<in> set bn"
    obtain a b where ab: "x = (a, b)" by (cases x)
    from same [of a b] x show "(case x of (a, b) \<Rightarrow> a \<in> set (map fst (AList.update out arr ds))) =
        (case x of (a, b) \<Rightarrow> a \<in> set (map fst ds))"
      unfolding ab by simp
  qed
qed

lemma rename_after_update:
  assumes ren: "rename ds btr = Inr view"
    and fst_free: "out \<notin> set (map fst btr)"
    and snd_free: "out \<notin> set (map snd btr)"
  shows "\<exists>view1. rename (AList.update out arr ds) btr = Inr view1 \<and>
           set (map fst view) \<subseteq> set (map fst view1)"
proof -
  let ?nn = "new_name btr"
  let ?ds1 = "AList.update out arr ds"
  from ren have keys: "set (map fst btr) \<subseteq> set (map fst ds)"
    and dist: "distinct (map (?nn \<circ> fst) ds)"
    and view: "view = map (\<lambda>(k, v). (?nn k, v)) ds"
    unfolding rename_Inr_iff by blast+
  have nn_out: "?nn out = out"
    using fst_free by (rule new_name_notin)
  have other: "?nn k \<noteq> out" if "k \<in> set (map fst ds)" "out \<notin> set (map fst ds)" for k
    using new_name_cases [of btr k] that snd_free by auto
  have names1: "map (?nn \<circ> fst) ?ds1 =
      (if out \<in> set (map fst ds) then map (?nn \<circ> fst) ds else map (?nn \<circ> fst) ds @ [out])"
  proof -
    have "map (?nn \<circ> fst) ?ds1 = map ?nn (map fst ?ds1)" by simp
    also have "\<dots> = (if out \<in> set (map fst ds) then map ?nn (map fst ds)
                     else map ?nn (map fst ds) @ [out])"
      by (simp add: update_keys nn_out)
    finally show ?thesis by simp
  qed
  have dist1: "distinct (map (?nn \<circ> fst) ?ds1)"
  proof (cases "out \<in> set (map fst ds)")
    case True
    then show ?thesis using dist names1 by simp
  next
    case False
    have "out \<notin> set (map (?nn \<circ> fst) ds)"
      using other [OF _ False] by auto
    then show ?thesis using dist names1 False by simp
  qed
  have keys1: "set (map fst btr) \<subseteq> set (map fst ?ds1)"
    using keys by (auto simp: update_keys)
  have ren1: "rename ?ds1 btr = Inr (map (\<lambda>(k, v). (?nn k, v)) ?ds1)"
    unfolding rename_Inr_iff using keys1 dist1 by blast
  have "set (map fst view) \<subseteq> set (map fst (map (\<lambda>(k, v). (?nn k, v)) ?ds1))"
    unfolding view keys_renamed names1 by auto
  with ren1 show ?thesis by blast
qed

text \<open>
  The filtered table renames a present name as the whole table does, and a second call
  with an output name outside the table renames as the first did.
\<close>

lemma map_of_filter_key:
  "P k \<Longrightarrow> map_of (filter (\<lambda>(a, b). P a) bn) k = map_of bn k"
  by (induction bn) auto

lemma new_name_present:
  assumes "k \<in> set (map fst ds)"
  shows "new_name (present_bands ds bn) k = new_name bn k"
proof -
  have "map_of (filter (\<lambda>(a, b). a \<in> set (map fst ds)) bn) k = map_of bn k"
    using assms by (rule map_of_filter_key [where P = "\<lambda>a. a \<in> set (map fst ds)"])
  then show ?thesis by (simp only: new_name_def present_bands_def)
qed

lemma second_rename_succeeds:
  assumes first: "calculate_indices A ds (Some i) (Some c) cv = (ds1, Inr r1)"
    and free: "cv = None \<or> cv = Some [] \<or>
        output_band_name cv i \<notin>
          set (map fst (collection_bandnames c)) \<union> set (map snd (collection_bandnames c))"
  shows "\<exists>view2. rename ds1 (present_bands ds1 (collection_bandnames c)) = Inr view2"
proof -
  let ?out = "output_band_name cv i"
  let ?bn = "collection_bandnames c"
  from calculate_indices_returns [OF first]
  obtain f where f: "map_of index_dict i = Some f"
    and app: "apply_index A ds i f (present_bands ds ?bn) cv = (ds1, Inr r1)"
    by blast
  from apply_index_returns [OF app]
  obtain view arr where ren: "rename ds (present_bands ds ?bn) = Inr view"
    and ds1: "ds1 = AList.update ?out arr ds"
    by blast
  have out_free: "?out \<notin> set (map fst ?bn) \<union> set (map snd ?bn)"
  proof -
    have "?out = i" if "cv = None \<or> cv = Some []"
      using that by (auto simp: output_band_name_def)
    with free index_code_not_band_name [OF f, of c] show ?thesis by metis
  qed
  have sub: "set (present_bands ds ?bn) \<subseteq> set ?bn"
    by (rule present_bands_subset)
  have fst_free: "?out \<notin> set (map fst (present_bands ds ?bn))"
    using out_free sub by auto
  have snd_free: "?out \<notin> set (map snd (present_bands ds ?bn))"
    using out_free sub by auto
  have same: "present_bands (AList.update ?out arr ds) ?bn = present_bands ds ?bn"
    using out_free by (intro present_bands_update) simp
  from rename_after_update [OF ren fst_free snd_free, of arr]
  obtain view1
    where "rename (AList.update ?out arr ds) (present_bands ds ?bn) = Inr view1"
    by blast
  then have "rename ds1 (present_bands ds1 ?bn) = Inr view1"
    by (simp only: ds1 same)
  then show ?thesis by blast
qed


text \<open>
  The two namings of one set of values: every call divides the values it is given by
  \<open>1000\<close>, whatever the names are.
\<close>

lemma calls_on_same_values:
  assumes "map_of index_dict i = Some f"
  shows "\<exists>arr.
      eval A
        [(''red'', adiv A r (alit A 1000)), (''green'', adiv A g (alit A 1000)),
         (''blue'', adiv A b (alit A 1000)), (''nir'', adiv A n (alit A 1000)),
         (''swir1'', adiv A s1 (alit A 1000)), (''swir2'', adiv A s2 (alit A 1000))] f = Some arr \<and>
      calculate_indices A
        [(''red'', r), (''green'', g), (''blue'', b), (''nir'', n), (''swir1'', s1), (''swir2'', s2)]
        (Some i) (Some ''ga_landsat_2'') None =
        ([(''red'', r), (''green'', g), (''blue'', b), (''nir'', n), (''swir1'', s1),
          (''swir2'', s2), (i, arr)],
         Inr [(''red'', r), (''green'', g), (''blue'', b), (''nir'', n), (''swir1'', s1),
          (''swir2'', s2), (i, arr)]) \<and>
      calculate_indices A
        [(''nbart_red'', r), (''nbart_green'', g), (''nbart_blue'', b), (''nbart_nir'', n),
         (''nbart_swir_1'', s1), (''nbart_swir_2'', s2)]
        (Some i) (Some ''ga_landsat_3'') None =
        ([(''nbart_red'', r), (''nbart_green'', g), (''nbart_blue'', b), (''nbart_nir'', n),
          (''nbart_swir_1'', s1), (''nbart_swir_2'', s2), (i, arr)],
         Inr [(''nbart_red'', r), (''nbart_green'', g), (''nbart_blue'', b), (''nbart_nir'', n),
          (''nbart_swir_1'', s1), (''nbart_swir_2'', s2), (i, arr)])"
proof -
  let ?dv = "[(''red'', r), (''green'', g), (''blue'', b), (''nir'', n), (''swir1'', s1),
              (''swir2'', s2)]"
  let ?d3 = "[(''nbart_red'', r), (''nbart_green'', g), (''nbart_blue'', b), (''nbart_nir'', n),
         (''nbart_swir_1'', s1), (''nbart_swir_2'', s2)]"
  let ?sc = "[(''red'', adiv A r (alit A 1000)), (''green'', adiv A g (alit A 1000)),
         (''blue'', adiv A b (alit A 1000)), (''nir'', adiv A n (alit A 1000)),
         (''swir1'', adiv A s1 (alit A 1000)), (''swir2'', adiv A s2 (alit A 1000))]"
  have codes: "i \<in> set (map fst index_dict)"
    using assms by (metis map_of_eq_None_iff option.distinct(1) set_map)
  have fresh: "i \<notin> {''red'', ''green'', ''blue'', ''nir'', ''swir1'', ''swir2'', ''nbart_red'',
      ''nbart_green'', ''nbart_blue'', ''nbart_nir'', ''nbart_swir_1'', ''nbart_swir_2''}"
    using codes unfolding index_codes by auto
  have sc: "rescale A ?dv = ?sc"
    by (simp add: rescale_def)
  have "bands_of f \<subseteq> set (map fst ?sc)"
    using registered_bands [OF assms] by simp
  then have "eval A ?sc f \<noteq> None"
    by (simp only: eval_None_iff not_not)
  then obtain arr where arr: "eval A ?sc f = Some arr" by blast
  have call2: "calculate_indices A ?dv (Some i) (Some ''ga_landsat_2'') None =
      (?dv @ [(i, arr)], Inr (?dv @ [(i, arr)]))"
  proof -
    have ev: "eval A (rescale A ?dv) f = Some arr"
      unfolding sc by (rule arr)
    have "i \<notin> set (map fst ?dv)" using fresh by auto
    then have upd: "AList.update i arr ?dv = ?dv @ [(i, arr)]" by (rule update_fresh)
    have dist: "distinct (map fst ?dv)" by simp
    show ?thesis
      using calculate_indices_landsat_2 [OF dist assms ev, of None]
      by (simp only: output_band_name_def option.case upd)
  qed
  have call3: "calculate_indices A ?d3 (Some i) (Some ''ga_landsat_3'') None =
      (?d3 @ [(i, arr)], Inr (?d3 @ [(i, arr)]))"
  proof -
    have "i \<notin> set (map fst ?d3)" using fresh by auto
    then have upd: "AList.update i arr ?d3 = ?d3 @ [(i, arr)]" by (rule update_fresh)
    have "apply_index A ?d3 i f (present_bands ?d3 landsat_3_bandnames) None =
        (?d3 @ [(i, arr)], Inr (?d3 @ [(i, arr)]))"
      by (simp only: apply_index_def rename_landsat_3_nbart sum.case sc arr option.case
          Let_def output_band_name_def upd)
    then show ?thesis by (simp add: calculate_indices_def assms)
  qed
  from arr call2 call3 show ?thesis by simp
qed


section \<open>The claims\<close>

text \<open>
  C1. On a dataset with canonical band names, \<^verbatim>\<open>index='NDVI'\<close> and
  \<^verbatim>\<open>collection='ga_landsat_2'\<close> return the dataset with a band \<^verbatim>\<open>NDVI\<close> that is, pixel by
  pixel, \<open>(nir - red) / (nir + red)\<close> of the band values divided by \<open>1000\<close>. Nothing is
  renamed, and the view the formula reads holds every band of the dataset divided by
  \<open>1000\<close>. The statement holds for every pixel arithmetic \<open>S\<close>; the dataset is a dictionary,
  so its keys are distinct.
\<close>

theorem ndvi_landsat_2:
  assumes "distinct (map fst ds)"
    and "map_of ds ''nir'' = Some n" and "map_of ds ''red'' = Some r"
  shows "calculate_indices (elementwise S) ds (Some ''NDVI'') (Some ''ga_landsat_2'') None =
           (AList.update ''NDVI''
              (\<lambda>p. adiv S (asub S (adiv S (n p) (alit S 1000)) (adiv S (r p) (alit S 1000)))
                            (aadd S (adiv S (n p) (alit S 1000)) (adiv S (r p) (alit S 1000)))) ds,
            Inr (AList.update ''NDVI''
              (\<lambda>p. adiv S (asub S (adiv S (n p) (alit S 1000)) (adiv S (r p) (alit S 1000)))
                            (aadd S (adiv S (n p) (alit S 1000)) (adiv S (r p) (alit S 1000)))) ds))
         \<and> rename ds [] = Inr ds
         \<and> map_of (rescale (elementwise S) ds) k =
             map_option (\<lambda>v p. adiv S (v p) (alit S 1000)) (map_of ds k)"
proof -
  have "eval (elementwise S) (rescale (elementwise S) ds) (Div (Sub nir red) (Add nir red)) =
          Some (\<lambda>p. adiv S (asub S (adiv S (n p) (alit S 1000)) (adiv S (r p) (alit S 1000)))
                            (aadd S (adiv S (n p) (alit S 1000)) (adiv S (r p) (alit S 1000))))"
    using assms(2,3) by (simp add: map_of_rescale)
  from calculate_indices_landsat_2 [OF assms(1) index_dict_NDVI this, of None]
  show ?thesis
    using assms(1) by (simp add: output_band_name_def rename_empty map_of_rescale)
qed

theorem ndvi_landsat_2_witness:
  "calculate_indices (elementwise real_arith)
     [(''red'', \<lambda>p::nat. 1000), (''nir'', \<lambda>p. 3000)] (Some ''NDVI'') (Some ''ga_landsat_2'') None =
   ([(''red'', \<lambda>p. 1000), (''nir'', \<lambda>p. 3000), (''NDVI'', \<lambda>p. 1 / 2)],
    Inr [(''red'', \<lambda>p. 1000), (''nir'', \<lambda>p. 3000), (''NDVI'', \<lambda>p. 1 / 2)])"
  using ndvi_landsat_2 [of "[(''red'', \<lambda>p::nat. 1000), (''nir'', \<lambda>p. 3000)]"
      "\<lambda>p. 3000" "\<lambda>p. 1000" real_arith]
  by simp

text \<open>
  C2. The formula registered for \<^verbatim>\<open>AWEI_ns\<close> is, on a view that has the four bands and for
  every arithmetic, \<open>4 * (green - swir1) - ((2.5 * nir) * 2.75) * swir2\<close>, the product the
  source's \<^verbatim>\<open>2.5 * ds.nir * + 2.75 * ds.swir2\<close> parses to. In exact arithmetic this is the
  claim's \<open>4 * (green - swir1) - (2.5 * nir * (+2.75 * swir2))\<close>, which is
  \<open>4 * (green - swir1) - 6.875 * nir * swir2\<close>; it is not the sum
  \<open>2.5 * nir + 2.75 * swir2\<close> of the published index (the values differ at
  \<open>green = swir1 = 0\<close>, \<open>nir = swir2 = 1\<close>).
\<close>

theorem awei_ns_formula:
  assumes "map_of view ''green'' = Some g" and "map_of view ''swir1'' = Some s1"
    and "map_of view ''nir'' = Some n" and "map_of view ''swir2'' = Some s2"
  shows "\<exists>f. map_of index_dict ''AWEI_ns'' = Some f \<and>
           eval A view f =
             Some (asub A (amul A (alit A 4) (asub A g s1))
                          (amul A (amul A (amul A (alit A 2.5) n) (alit A 2.75)) s2)) \<and>
           (\<forall>x y z w. eval real_arith [(''green'', x), (''swir1'', y), (''nir'', z), (''swir2'', w)] f =
                        Some (4 * (x - y) - (2.5 * z * (2.75 * w))) \<and>
                      4 * (x - y) - (2.5 * z * (2.75 * w)) = 4 * (x - y) - 6.875 * z * w) \<and>
           eval real_arith [(''green'', 0), (''swir1'', 0), (''nir'', 1), (''swir2'', 1)] f \<noteq>
             Some (4 * (0 - 0) - (2.5 * 1 + 2.75 * 1))"
  using assms by (simp add: index_dict_AWEI_ns)

theorem awei_ns_formula_witness:
  "\<exists>f. map_of index_dict ''AWEI_ns'' = Some f \<and>
     eval real_arith [(''green'', 2), (''swir1'', 5), (''nir'', 3), (''swir2'', 6)] f =
       Some (- (543 / 4))"
  using awei_ns_formula [of "[(''green'', 2), (''swir1'', 5), (''nir'', 3), (''swir2'', 6)]"
      2 5 3 6 real_arith]
  by simp blast

text \<open>
  C3, as the code has it. Every call divides the values it is given by \<open>1000\<close>, once. For
  every registered index and every arithmetic, the call on values \<open>v\<close> under the canonical
  names with \<^verbatim>\<open>ga_landsat_2\<close> and the call on the same values under the \<^verbatim>\<open>ga_landsat_3\<close> names
  both store the formula's value on \<open>v / 1000\<close>, so they store the same array; the call on
  \<open>1000 * v\<close> under the \<^verbatim>\<open>ga_landsat_3\<close> names stores the formula's value on
  \<open>(1000 * v) / 1000\<close>.
\<close>

theorem rescaling_relation:
  assumes "map_of index_dict i = Some f"
  shows "(\<exists>arr.
      eval A
        [(''red'', adiv A r (alit A 1000)), (''green'', adiv A g (alit A 1000)),
         (''blue'', adiv A b (alit A 1000)), (''nir'', adiv A n (alit A 1000)),
         (''swir1'', adiv A s1 (alit A 1000)), (''swir2'', adiv A s2 (alit A 1000))] f = Some arr \<and>
      calculate_indices A
        [(''red'', r), (''green'', g), (''blue'', b), (''nir'', n), (''swir1'', s1), (''swir2'', s2)]
        (Some i) (Some ''ga_landsat_2'') None =
        ([(''red'', r), (''green'', g), (''blue'', b), (''nir'', n), (''swir1'', s1),
          (''swir2'', s2), (i, arr)],
         Inr [(''red'', r), (''green'', g), (''blue'', b), (''nir'', n), (''swir1'', s1),
          (''swir2'', s2), (i, arr)]) \<and>
      calculate_indices A
        [(''nbart_red'', r), (''nbart_green'', g), (''nbart_blue'', b), (''nbart_nir'', n),
         (''nbart_swir_1'', s1), (''nbart_swir_2'', s2)]
        (Some i) (Some ''ga_landsat_3'') None =
        ([(''nbart_red'', r), (''nbart_green'', g), (''nbart_blue'', b), (''nbart_nir'', n),
          (''nbart_swir_1'', s1), (''nbart_swir_2'', s2), (i, arr)],
         Inr [(''nbart_red'', r), (''nbart_green'', g), (''nbart_blue'', b), (''nbart_nir'', n),
          (''nbart_swir_1'', s1), (''nbart_swir_2'', s2), (i, arr)])) \<and>
    (\<exists>arr'.
      eval A
        [(''red'', adiv A (amul A (alit A 1000) r) (alit A 1000)),
         (''green'', adiv A (amul A (alit A 1000) g) (alit A 1000)),
         (''blue'', adiv A (amul A (alit A 1000) b) (alit A 1000)),
         (''nir'', adiv A (amul A (alit A 1000) n) (alit A 1000)),
         (''swir1'', adiv A (amul A (alit A 1000) s1) (alit A 1000)),
         (''swir2'', adiv A (amul A (alit A 1000) s2) (alit A 1000))] f = Some arr' \<and>
      calculate_indices A
        [(''nbart_red'', amul A (alit A 1000) r), (''nbart_green'', amul A (alit A 1000) g),
         (''nbart_blue'', amul A (alit A 1000) b), (''nbart_nir'', amul A (alit A 1000) n),
         (''nbart_swir_1'', amul A (alit A 1000) s1), (''nbart_swir_2'', amul A (alit A 1000) s2)]
        (Some i) (Some ''ga_landsat_3'') None =
        ([(''nbart_red'', amul A (alit A 1000) r), (''nbart_green'', amul A (alit A 1000) g),
          (''nbart_blue'', amul A (alit A 1000) b), (''nbart_nir'', amul A (alit A 1000) n),
          (''nbart_swir_1'', amul A (alit A 1000) s1),
          (''nbart_swir_2'', amul A (alit A 1000) s2), (i, arr')],
         Inr [(''nbart_red'', amul A (alit A 1000) r), (''nbart_green'', amul A (alit A 1000) g),
          (''nbart_blue'', amul A (alit A 1000) b), (''nbart_nir'', amul A (alit A 1000) n),
          (''nbart_swir_1'', amul A (alit A 1000) s1),
          (''nbart_swir_2'', amul A (alit A 1000) s2), (i, arr')]))"
proof (rule conjI)
  show "\<exists>arr.
      eval A
        [(''red'', adiv A r (alit A 1000)), (''green'', adiv A g (alit A 1000)),
         (''blue'', adiv A b (alit A 1000)), (''nir'', adiv A n (alit A 1000)),
         (''swir1'', adiv A s1 (alit A 1000)), (''swir2'', adiv A s2 (alit A 1000))] f = Some arr \<and>
      calculate_indices A
        [(''red'', r), (''green'', g), (''blue'', b), (''nir'', n), (''swir1'', s1), (''swir2'', s2)]
        (Some i) (Some ''ga_landsat_2'') None =
        ([(''red'', r), (''green'', g), (''blue'', b), (''nir'', n), (''swir1'', s1),
          (''swir2'', s2), (i, arr)],
         Inr [(''red'', r), (''green'', g), (''blue'', b), (''nir'', n), (''swir1'', s1),
          (''swir2'', s2), (i, arr)]) \<and>
      calculate_indices A
        [(''nbart_red'', r), (''nbart_green'', g), (''nbart_blue'', b), (''nbart_nir'', n),
         (''nbart_swir_1'', s1), (''nbart_swir_2'', s2)]
        (Some i) (Some ''ga_landsat_3'') None =
        ([(''nbart_red'', r), (''nbart_green'', g), (''nbart_blue'', b), (''nbart_nir'', n),
          (''nbart_swir_1'', s1), (''nbart_swir_2'', s2), (i, arr)],
         Inr [(''nbart_red'', r), (''nbart_green'', g), (''nbart_blue'', b), (''nbart_nir'', n),
          (''nbart_swir_1'', s1), (''nbart_swir_2'', s2), (i, arr)])"
    by (rule calls_on_same_values [OF assms])
next
  from calls_on_same_values [OF assms, of A "amul A (alit A 1000) r" "amul A (alit A 1000) g"
      "amul A (alit A 1000) b" "amul A (alit A 1000) n" "amul A (alit A 1000) s1"
      "amul A (alit A 1000) s2"]
  show "\<exists>arr'.
      eval A
        [(''red'', adiv A (amul A (alit A 1000) r) (alit A 1000)),
         (''green'', adiv A (amul A (alit A 1000) g) (alit A 1000)),
         (''blue'', adiv A (amul A (alit A 1000) b) (alit A 1000)),
         (''nir'', adiv A (amul A (alit A 1000) n) (alit A 1000)),
         (''swir1'', adiv A (amul A (alit A 1000) s1) (alit A 1000)),
         (''swir2'', adiv A (amul A (alit A 1000) s2) (alit A 1000))] f = Some arr' \<and>
      calculate_indices A
        [(''nbart_red'', amul A (alit A 1000) r), (''nbart_green'', amul A (alit A 1000) g),
         (''nbart_blue'', amul A (alit A 1000) b), (''nbart_nir'', amul A (alit A 1000) n),
         (''nbart_swir_1'', amul A (alit A 1000) s1), (''nbart_swir_2'', amul A (alit A 1000) s2)]
        (Some i) (Some ''ga_landsat_3'') None =
        ([(''nbart_red'', amul A (alit A 1000) r), (''nbart_green'', amul A (alit A 1000) g),
          (''nbart_blue'', amul A (alit A 1000) b), (''nbart_nir'', amul A (alit A 1000) n),
          (''nbart_swir_1'', amul A (alit A 1000) s1),
          (''nbart_swir_2'', amul A (alit A 1000) s2), (i, arr')],
         Inr [(''nbart_red'', amul A (alit A 1000) r), (''nbart_green'', amul A (alit A 1000) g),
          (''nbart_blue'', amul A (alit A 1000) b), (''nbart_nir'', amul A (alit A 1000) n),
          (''nbart_swir_1'', amul A (alit A 1000) s1),
          (''nbart_swir_2'', amul A (alit A 1000) s2), (i, arr')])"
    by blast
qed

theorem rescaling_relation_witness:
  "calculate_indices real_arith
     [(''red'', 1000), (''green'', 2000), (''blue'', 4000), (''nir'', 3000), (''swir1'', 5000),
      (''swir2'', 6000)] (Some ''NDVI'') (Some ''ga_landsat_2'') None =
     ([(''red'', 1000), (''green'', 2000), (''blue'', 4000), (''nir'', 3000), (''swir1'', 5000),
       (''swir2'', 6000), (''NDVI'', 1 / 2)],
      Inr [(''red'', 1000), (''green'', 2000), (''blue'', 4000), (''nir'', 3000),
       (''swir1'', 5000), (''swir2'', 6000), (''NDVI'', 1 / 2)]) \<and>
   calculate_indices real_arith
     [(''nbart_red'', 1000), (''nbart_green'', 2000), (''nbart_blue'', 4000),
      (''nbart_nir'', 3000), (''nbart_swir_1'', 5000), (''nbart_swir_2'', 6000)]
     (Some ''NDVI'') (Some ''ga_landsat_3'') None =
     ([(''nbart_red'', 1000), (''nbart_green'', 2000), (''nbart_blue'', 4000),
       (''nbart_nir'', 3000), (''nbart_swir_1'', 5000), (''nbart_swir_2'', 6000),
       (''NDVI'', 1 / 2)],
      Inr [(''nbart_red'', 1000), (''nbart_green'', 2000), (''nbart_blue'', 4000),
       (''nbart_nir'', 3000), (''nbart_swir_1'', 5000), (''nbart_swir_2'', 6000),
       (''NDVI'', 1 / 2)])"
  using rescaling_relation [OF index_dict_NDVI, of real_arith 1000 2000 4000 3000 5000 6000]
  by auto

text \<open>
  C3, as the claim has it, fails: for \<^verbatim>\<open>AWEI_sh\<close> and all six bands \<open>v = 1000\<close> the call
  on \<open>v\<close> stores \<open>-2\<close> and the call on \<open>1000 * v\<close> stores \<open>-2000\<close>.
\<close>

theorem rescaling_differs:
  "calculate_indices real_arith
     [(''red'', 1000), (''green'', 1000), (''blue'', 1000), (''nir'', 1000), (''swir1'', 1000),
      (''swir2'', 1000)] (Some ''AWEI_sh'') (Some ''ga_landsat_2'') None =
     ([(''red'', 1000), (''green'', 1000), (''blue'', 1000), (''nir'', 1000), (''swir1'', 1000),
       (''swir2'', 1000), (''AWEI_sh'', - 2)],
      Inr [(''red'', 1000), (''green'', 1000), (''blue'', 1000), (''nir'', 1000), (''swir1'', 1000),
       (''swir2'', 1000), (''AWEI_sh'', - 2)]) \<and>
   calculate_indices real_arith
     [(''nbart_red'', 1000 * 1000), (''nbart_green'', 1000 * 1000), (''nbart_blue'', 1000 * 1000),
      (''nbart_nir'', 1000 * 1000), (''nbart_swir_1'', 1000 * 1000),
      (''nbart_swir_2'', 1000 * 1000)] (Some ''AWEI_sh'') (Some ''ga_landsat_3'') None =
     ([(''nbart_red'', 1000 * 1000), (''nbart_green'', 1000 * 1000), (''nbart_blue'', 1000 * 1000),
       (''nbart_nir'', 1000 * 1000), (''nbart_swir_1'', 1000 * 1000),
       (''nbart_swir_2'', 1000 * 1000), (''AWEI_sh'', - 2000)],
      Inr [(''nbart_red'', 1000 * 1000), (''nbart_green'', 1000 * 1000),
       (''nbart_blue'', 1000 * 1000), (''nbart_nir'', 1000 * 1000),
       (''nbart_swir_1'', 1000 * 1000), (''nbart_swir_2'', 1000 * 1000), (''AWEI_sh'', - 2000)])"
  by (simp add: run_defs Let_def)

text \<open>
  C4. A missing index raises the missing-index error and an index outside the twenty
  codes the unknown-index error, whatever the collection is; with a registered index a
  missing collection raises the missing-collection error and a collection outside the
  three names the unknown-collection error. The equations hold for every dataset and
  every arithmetic (also a dataset on which the renaming would raise), and the dataset
  is the one passed in: nothing is renamed, rescaled or evaluated before these errors.
\<close>

theorem validation_errors:
  "calculate_indices A ds None collection cv = (ds, Inl (Raised NoIndexProvided)) \<and>
   (i \<notin> set [''NDVI'', ''EVI'', ''LAI'', ''SAVI'', ''NDMI'', ''NBR'', ''BAI'', ''NDBI'', ''NDSI'',
       ''NDWI'', ''MNDWI'', ''AWEI_ns'', ''AWEI_sh'', ''WI'', ''TCW'', ''TCG'', ''TCB'', ''CMR'',
       ''FMR'', ''IOR''] \<longrightarrow>
      calculate_indices A ds (Some i) collection cv = (ds, Inl (Raised (InvalidIndex i)))) \<and>
   (j \<in> set [''NDVI'', ''EVI'', ''LAI'', ''SAVI'', ''NDMI'', ''NBR'', ''BAI'', ''NDBI'', ''NDSI'',
       ''NDWI'', ''MNDWI'', ''AWEI_ns'', ''AWEI_sh'', ''WI'', ''TCW'', ''TCG'', ''TCB'', ''CMR'',
       ''FMR'', ''IOR''] \<longrightarrow>
      calculate_indices A ds (Some j) None cv = (ds, Inl (Raised NoCollectionProvided)) \<and>
      (c \<notin> {''ga_landsat_2'', ''ga_landsat_3'', ''ga_sentinel2_1''} \<longrightarrow>
         calculate_indices A ds (Some j) (Some c) cv = (ds, Inl (Raised (InvalidCollection c)))))"
proof -
  have unreg: "map_of index_dict i = None" if "i \<notin> set (map fst index_dict)"
    using that by (simp add: map_of_eq_None_iff)
  have reg: "\<exists>f. map_of index_dict j = Some f" if "j \<in> set (map fst index_dict)"
    using that by (metis map_of_eq_None_iff not_Some_eq set_map)
  have 1: "calculate_indices A ds None collection cv = (ds, Inl (Raised NoIndexProvided))"
    by (simp add: calculate_indices_def)
  have 2: "calculate_indices A ds (Some i) collection cv = (ds, Inl (Raised (InvalidIndex i)))"
    if "i \<notin> set (map fst index_dict)"
    using unreg [OF that] by (simp add: calculate_indices_def)
  have 3: "calculate_indices A ds (Some j) None cv = (ds, Inl (Raised NoCollectionProvided))"
    if "j \<in> set (map fst index_dict)"
    using reg [OF that] by (auto simp: calculate_indices_def)
  have 4: "calculate_indices A ds (Some j) (Some c) cv = (ds, Inl (Raised (InvalidCollection c)))"
    if "j \<in> set (map fst index_dict)"
      and "c \<notin> {''ga_landsat_2'', ''ga_landsat_3'', ''ga_sentinel2_1''}"
    using reg [OF that(1)] that(2) by (auto simp: calculate_indices_def)
  show ?thesis
    unfolding index_codes [symmetric] using 1 2 3 4 by blast
qed

theorem validation_errors_witness:
  "calculate_indices real_arith [(''nir'', 3000), (''red'', 1000)] None None None =
     ([(''nir'', 3000), (''red'', 1000)], Inl (Raised NoIndexProvided)) \<and>
   calculate_indices real_arith [(''nir'', 3000), (''red'', 1000)] (Some ''XYZ'') None None =
     ([(''nir'', 3000), (''red'', 1000)], Inl (Raised (InvalidIndex ''XYZ''))) \<and>
   calculate_indices real_arith [(''nir'', 3000), (''red'', 1000)] (Some ''NDVI'') None None =
     ([(''nir'', 3000), (''red'', 1000)], Inl (Raised NoCollectionProvided)) \<and>
   calculate_indices real_arith [(''nir'', 3000), (''red'', 1000)] (Some ''NDVI'') (Some ''bogus'') None =
     ([(''nir'', 3000), (''red'', 1000)], Inl (Raised (InvalidCollection ''bogus'')))"
  using validation_errors [of real_arith "[(''nir'', 3000), (''red'', 1000)]" None None
      "''XYZ''" "''NDVI''" "''bogus''"]
  by simp

text \<open>
  C5, as the code has it. With a registered index and a valid collection, when the
  renaming succeeds and a band of the formula is not in the renamed dataset, the
  validation raises nothing, the evaluation of the formula fails, and the call raises
  the one missing-band error. Its message names the requested index and says that the
  bands vary with the collection. The message does not name the requested collection:
  the only value it interpolates is the index.
\<close>

theorem missing_band_error:
  assumes "map_of index_dict i = Some f"
    and "c \<in> {''ga_landsat_2'', ''ga_landsat_3'', ''ga_sentinel2_1''}"
    and "rename ds (present_bands ds (collection_bandnames c)) = Inr view"
    and "\<not> bands_of f \<subseteq> set (map fst view)"
  shows "calculate_indices A ds (Some i) (Some c) cv = (ds, Inl (Raised (BandsMissing i))) \<and>
         eval A (rescale A view) f = None \<and>
         sublist i (message (BandsMissing i)) \<and>
         sublist ''These bands may vary depending on the `collection`'' (message (BandsMissing i))"
proof -
  have ev: "eval A (rescale A view) f = None"
    using assms(4) by (simp add: eval_None_iff keys_rescale)
  have call: "calculate_indices A ds (Some i) (Some c) cv = (ds, Inl (Raised (BandsMissing i)))"
    by (simp add: calculate_indices_valid [OF assms(1,2)] apply_index_def assms(3) ev)
  show ?thesis
    using ev call message_BandsMissing_names_index message_BandsMissing_notes_collections
    by blast
qed

theorem missing_band_error_witness:
  "calculate_indices real_arith [(''nbart_red'', 1000)] (Some ''NDVI'') (Some ''ga_sentinel2_1'')
     (Some ''veg'') =
     ([(''nbart_red'', 1000)], Inl (Raised (BandsMissing ''NDVI''))) \<and>
   sublist ''NDVI'' (message (BandsMissing ''NDVI''))"
proof -
  have h3: "rename [(''nbart_red'', 1000::real)]
      (present_bands [(''nbart_red'', 1000::real)] (collection_bandnames ''ga_sentinel2_1'')) =
      Inr [(''red'', 1000)]"
    by (simp add: rename_def present_bands_def collection_bandnames_def sentinel2_1_bandnames_def
        new_name_def)
  have h4: "\<not> bands_of (Div (Sub nir red) (Add nir red)) \<subseteq> set (map fst [(''red'', 1000::real)])"
    by simp
  from missing_band_error [OF index_dict_NDVI _ h3 h4, of real_arith "Some ''veg''"]
  show ?thesis by simp
qed

text \<open>
  C5, as the claim has it, fails: for \<^verbatim>\<open>collection='ga_landsat_3'\<close> the message of the
  missing-band error does not contain the collection's name.
\<close>

theorem missing_band_error_names_no_collection:
  "calculate_indices real_arith [(''nbart_red'', 1000)] (Some ''NDVI'') (Some ''ga_landsat_3'') None =
     ([(''nbart_red'', 1000)], Inl (Raised (BandsMissing ''NDVI''))) \<and>
   \<not> sublist ''ga_landsat_3'' (message (BandsMissing ''NDVI''))"
proof -
  have "\<not> sublist ''ga_landsat_3'' (message (BandsMissing ''NDVI''))"
    by code_simp
  then show ?thesis by (simp add: run_defs)
qed




text \<open>
  C7. For \<^verbatim>\<open>collection='ga_landsat_3'\<close>, on a dataset (a dictionary, so with distinct keys)
  that has the six \<^verbatim>\<open>nbar_*\<close> names and none of the \<^verbatim>\<open>nbart_*\<close> or canonical names, the
  filtered rename map is the \<^verbatim>\<open>nbar_*\<close> half of the table, the renaming with it succeeds,
  and the call returns for every registered index. The table as it is, not filtered,
  would make the renaming raise on the first absent name.
\<close>

theorem landsat_3_nbar_only:
  assumes "distinct (map fst ds)"
    and "{''nbar_red'', ''nbar_green'', ''nbar_blue'', ''nbar_nir'', ''nbar_swir_1'',
          ''nbar_swir_2''} \<subseteq> set (map fst ds)"
    and "set (map fst ds) \<inter>
         {''nbart_red'', ''nbart_green'', ''nbart_blue'', ''nbart_nir'', ''nbart_swir_1'',
          ''nbart_swir_2'', ''red'', ''green'', ''blue'', ''nir'', ''swir1'', ''swir2''} = {}"
    and "map_of index_dict i = Some f"
  shows "present_bands ds landsat_3_bandnames =
           [(''nbar_red'', ''red''), (''nbar_green'', ''green''), (''nbar_blue'', ''blue''),
            (''nbar_nir'', ''nir''), (''nbar_swir_1'', ''swir1''), (''nbar_swir_2'', ''swir2'')] \<and>
         rename ds landsat_3_bandnames = Inl (CannotRename ''nbart_nir'') \<and>
         (\<exists>view arr.
            rename ds (present_bands ds landsat_3_bandnames) = Inr view \<and>
            eval A (rescale A view) f = Some arr \<and>
            calculate_indices A ds (Some i) (Some ''ga_landsat_3'') cv =
              (AList.update (output_band_name cv i) arr ds,
               Inr (AList.update (output_band_name cv i) arr ds)))"
proof -
  let ?btr = "[(''nbar_red'', ''red''), (''nbar_green'', ''green''), (''nbar_blue'', ''blue''),
            (''nbar_nir'', ''nir''), (''nbar_swir_1'', ''swir1''), (''nbar_swir_2'', ''swir2'')]"
  let ?keys = "set (map fst ds)"
  note facts = landsat_3_nbar_facts [OF assms(2,3)]
  have btr: "present_bands ds landsat_3_bandnames = ?btr"
    using facts by (simp add: present_bands_def landsat_3_bandnames_def)
  have unfiltered: "rename ds landsat_3_bandnames = Inl (CannotRename ''nbart_nir'')"
    using facts by (simp add: rename_def landsat_3_bandnames_def)
  have inj: "inj_on (new_name ?btr) ?keys"
    by (rule landsat_3_nbar_inj) (rule facts)+
  have "distinct (map (new_name ?btr) (map fst ds))"
    using assms(1) inj distinct_map [of "new_name ?btr" "map fst ds"] by blast
  then have dist: "distinct (map (new_name ?btr \<circ> fst) ds)"
    by (simp only: map_map)
  have keys: "set (map fst ?btr) \<subseteq> ?keys"
    using facts(1-6) by simp
  define view where "view = map (\<lambda>(k, v). (new_name ?btr k, v)) ds"
  have ren: "rename ds ?btr = Inr view"
    using keys dist rename_Inr_iff [of ds ?btr view] view_def by blast
  have "set (map fst view) = new_name ?btr ` ?keys"
    unfolding view_def keys_renamed by (simp only: set_map image_comp)
  moreover have "{''red'', ''green'', ''blue'', ''nir'', ''swir1'', ''swir2''} \<subseteq> new_name ?btr ` ?keys"
    by (rule landsat_3_nbar_image) (rule facts)+
  ultimately have "bands_of f \<subseteq> set (map fst view)"
    using registered_bands [OF assms(4)] by (simp only: subset_trans)
  from apply_index_success [OF ren this, of A i cv]
  obtain arr where arr: "eval A (rescale A view) f = Some arr"
    and app: "apply_index A ds i f ?btr cv =
      (AList.update (output_band_name cv i) arr ds,
       Inr (AList.update (output_band_name cv i) arr ds))"
    by blast
  have call: "calculate_indices A ds (Some i) (Some ''ga_landsat_3'') cv =
      apply_index A ds i f ?btr cv"
    by (simp add: calculate_indices_def assms(4) btr)
  from ren arr app show ?thesis
    unfolding btr call using unfiltered by blast
qed

theorem landsat_3_nbar_only_witness:
  "calculate_indices real_arith
     [(''nbar_red'', 1000), (''nbar_green'', 2000), (''nbar_blue'', 4000), (''nbar_nir'', 3000),
      (''nbar_swir_1'', 5000), (''nbar_swir_2'', 6000)] (Some ''NDVI'') (Some ''ga_landsat_3'') None =
     ([(''nbar_red'', 1000), (''nbar_green'', 2000), (''nbar_blue'', 4000), (''nbar_nir'', 3000),
       (''nbar_swir_1'', 5000), (''nbar_swir_2'', 6000), (''NDVI'', 1 / 2)],
      Inr [(''nbar_red'', 1000), (''nbar_green'', 2000), (''nbar_blue'', 4000),
       (''nbar_nir'', 3000), (''nbar_swir_1'', 5000), (''nbar_swir_2'', 6000), (''NDVI'', 1 / 2)])"
proof -
  let ?ds = "[(''nbar_red'', 1000::real), (''nbar_green'', 2000), (''nbar_blue'', 4000),
      (''nbar_nir'', 3000), (''nbar_swir_1'', 5000), (''nbar_swir_2'', 6000)]"
  have h1: "distinct (map fst ?ds)" by simp
  have h2: "{''nbar_red'', ''nbar_green'', ''nbar_blue'', ''nbar_nir'', ''nbar_swir_1'',
          ''nbar_swir_2''} \<subseteq> set (map fst ?ds)" by simp
  have h3: "set (map fst ?ds) \<inter>
         {''nbart_red'', ''nbart_green'', ''nbart_blue'', ''nbart_nir'', ''nbart_swir_1'',
          ''nbart_swir_2'', ''red'', ''green'', ''blue'', ''nir'', ''swir1'', ''swir2''} = {}"
    by simp
  from landsat_3_nbar_only [OF h1 h2 h3 index_dict_NDVI, of real_arith None]
  obtain view arr where
    r: "rename ?ds (present_bands ?ds landsat_3_bandnames) = Inr view"
    and e: "eval real_arith (rescale real_arith view) (Div (Sub nir red) (Add nir red)) = Some arr"
    and c: "calculate_indices real_arith ?ds (Some ''NDVI'') (Some ''ga_landsat_3'') None =
      (AList.update (output_band_name None ''NDVI'') arr ?ds,
       Inr (AList.update (output_band_name None ''NDVI'') arr ?ds))"
    by blast
  have "rename ?ds (present_bands ?ds landsat_3_bandnames) =
      Inr [(''red'', 1000), (''green'', 2000), (''blue'', 4000), (''nir'', 3000),
           (''swir1'', 5000), (''swir2'', 6000)]"
    by (simp add: rename_def present_bands_def landsat_3_bandnames_def new_name_def)
  with r have "view = [(''red'', 1000), (''green'', 2000), (''blue'', 4000), (''nir'', 3000),
           (''swir1'', 5000), (''swir2'', 6000)]"
    by simp
  with e have "arr = 1 / 2" by (simp add: rescale_def)
  with c show ?thesis by (simp add: output_band_name_def)
qed

text \<open>
  C8, as the code has it. After a call has returned, a second call on the returned
  dataset with the same collection and the same output name (the same \<^verbatim>\<open>custom_varname\<close>,
  or the same default name) whose renaming raises no name conflict, and whose formula
  finds its bands when the index is another one, returns again. It stores the newly
  computed array, the formula's value on the renamed and rescaled dataset of the second
  call, under the output name, in the place of the band stored before; the list of names
  stays the same.
\<close>

theorem second_call_overwrites:
  assumes first: "calculate_indices A ds (Some i1) (Some c) cv1 = (ds1, Inr r1)"
    and name: "output_band_name cv2 i2 = output_band_name cv1 i1"
    and reg2: "map_of index_dict i2 = Some f2"
    and ren2: "rename ds1 (present_bands ds1 (collection_bandnames c)) = Inr view2"
    and bands2: "i2 = i1 \<or> bands_of f2 \<subseteq> set (map fst view2)"
  shows "\<exists>arr2.
      eval A (rescale A view2) f2 = Some arr2 \<and>
      calculate_indices A ds1 (Some i2) (Some c) cv2 =
        (AList.update (output_band_name cv2 i2) arr2 ds1,
         Inr (AList.update (output_band_name cv2 i2) arr2 ds1)) \<and>
      map fst (AList.update (output_band_name cv2 i2) arr2 ds1) = map fst ds1 \<and>
      map_of (AList.update (output_band_name cv2 i2) arr2 ds1) =
        (map_of ds1)(output_band_name cv2 i2 \<mapsto> arr2)"
proof -
  let ?out = "output_band_name cv2 i2"
  let ?bn = "collection_bandnames c"
  let ?btr = "present_bands ds ?bn"
  let ?btr1 = "present_bands ds1 ?bn"
  from calculate_indices_returns [OF first]
  obtain f1 where f1: "map_of index_dict i1 = Some f1"
    and c: "c \<in> {''ga_landsat_2'', ''ga_landsat_3'', ''ga_sentinel2_1''}"
    and app: "apply_index A ds i1 f1 ?btr cv1 = (ds1, Inr r1)"
    by blast
  from apply_index_returns [OF app]
  obtain view arr where ren: "rename ds ?btr = Inr view"
    and bands1: "bands_of f1 \<subseteq> set (map fst view)"
    and ds1: "ds1 = AList.update (output_band_name cv1 i1) arr ds"
    by blast
  have keys1: "set (map fst ds1) = insert ?out (set (map fst ds))"
    unfolding ds1 name by (auto simp: update_keys)
  have view: "view = map (\<lambda>(k, v). (new_name ?btr k, v)) ds"
    using ren unfolding rename_Inr_iff by blast
  have view2: "view2 = map (\<lambda>(k, v). (new_name ?btr1 k, v)) ds1"
    using ren2 unfolding rename_Inr_iff by blast
  have kv: "set (map fst view) = new_name ?btr ` set (map fst ds)"
    unfolding view keys_renamed by (simp only: set_map image_comp)
  have kv2: "set (map fst view2) = new_name ?btr1 ` set (map fst ds1)"
    unfolding view2 keys_renamed by (simp only: set_map image_comp)
  have grow: "set (map fst view) \<subseteq> set (map fst view2)"
  proof
    fix x assume "x \<in> set (map fst view)"
    then obtain k where k: "k \<in> set (map fst ds)" and x: "x = new_name ?btr k"
      unfolding kv by blast
    have k1: "k \<in> set (map fst ds1)" using k keys1 by blast
    have "new_name ?btr1 k = new_name ?btr k"
      using new_name_present [OF k1, of ?bn] new_name_present [OF k, of ?bn] by simp
    with x have "x = new_name ?btr1 k" by simp
    then have "x \<in> new_name ?btr1 ` set (map fst ds1)"
      using k1 by (rule image_eqI)
    then show "x \<in> set (map fst view2)"
      by (simp only: kv2)
  qed
  have bands: "bands_of f2 \<subseteq> set (map fst view2)"
  proof (cases "i2 = i1")
    case True
    with f1 reg2 have "f2 = f1" by simp
    with bands1 grow show ?thesis by blast
  next
    case False
    with bands2 show ?thesis by blast
  qed
  from apply_index_success [OF ren2 bands, of A i2 cv2]
  obtain arr2 where arr2: "eval A (rescale A view2) f2 = Some arr2"
    and app2: "apply_index A ds1 i2 f2 ?btr1 cv2 =
      (AList.update ?out arr2 ds1, Inr (AList.update ?out arr2 ds1))"
    by blast
  have call2: "calculate_indices A ds1 (Some i2) (Some c) cv2 =
      (AList.update ?out arr2 ds1, Inr (AList.update ?out arr2 ds1))"
    using app2 by (simp only: calculate_indices_valid [OF reg2 c])
  have "?out \<in> set (map fst ds1)"
    using keys1 by blast
  then have keys2: "map fst (AList.update ?out arr2 ds1) = map fst ds1"
    by (simp add: update_keys)
  have "map_of (AList.update ?out arr2 ds1) = (map_of ds1)(?out \<mapsto> arr2)"
    by (rule update_conv')
  with arr2 call2 keys2 show ?thesis by blast
qed

theorem second_call_overwrites_witness:
  "calculate_indices real_arith [(''red'', 1 / 2), (''nir'', 3000)]
     (Some ''NDVI'') (Some ''ga_landsat_2'') (Some ''red'') =
     ([(''red'', 5999 / 6001), (''nir'', 3000)],
      Inr [(''red'', 5999 / 6001), (''nir'', 3000)])"
proof -
  let ?ds = "[(''red'', 1000::real), (''nir'', 3000)]"
  let ?ds1 = "[(''red'', 1 / 2 :: real), (''nir'', 3000)]"
  have first: "calculate_indices real_arith ?ds (Some ''NDVI'') (Some ''ga_landsat_2'')
      (Some ''red'') = (?ds1, Inr ?ds1)"
    by (simp add: run_defs)
  have ren2: "rename ?ds1 (present_bands ?ds1 (collection_bandnames ''ga_landsat_2'')) = Inr ?ds1"
    by (simp add: collection_bandnames_def rename_empty)
  from second_call_overwrites [OF first refl index_dict_NDVI ren2 disjI1 [OF refl]]
  obtain arr2
    where e: "eval real_arith (rescale real_arith ?ds1) (Div (Sub nir red) (Add nir red)) = Some arr2"
      and call: "calculate_indices real_arith ?ds1 (Some ''NDVI'') (Some ''ga_landsat_2'')
        (Some ''red'') =
        (AList.update (output_band_name (Some ''red'') ''NDVI'') arr2 ?ds1,
         Inr (AList.update (output_band_name (Some ''red'') ''NDVI'') arr2 ?ds1))"
    by blast
  from e have "arr2 = 5999 / 6001" by (simp add: rescale_def)
  with call show ?thesis by (simp add: output_band_name_def)
qed

text \<open>
  C8, as the claim has it, fails: with \<^verbatim>\<open>collection='ga_landsat_3'\<close> and
  \<^verbatim>\<open>custom_varname='red'\<close> the first call stores a band \<^verbatim>\<open>red\<close> next to \<^verbatim>\<open>nbart_red\<close>, and in
  the second call the renaming of \<^verbatim>\<open>nbart_red\<close> to \<^verbatim>\<open>red\<close> raises a name conflict.
\<close>

theorem second_call_conflict:
  "calculate_indices real_arith [(''nbart_red'', 1000), (''nbart_nir'', 3000)]
     (Some ''NDVI'') (Some ''ga_landsat_3'') (Some ''red'') =
     ([(''nbart_red'', 1000), (''nbart_nir'', 3000), (''red'', 1 / 2)],
      Inr [(''nbart_red'', 1000), (''nbart_nir'', 3000), (''red'', 1 / 2)]) \<and>
   calculate_indices real_arith [(''nbart_red'', 1000), (''nbart_nir'', 3000), (''red'', 1 / 2)]
     (Some ''NDVI'') (Some ''ga_landsat_3'') (Some ''red'') =
     ([(''nbart_red'', 1000), (''nbart_nir'', 3000), (''red'', 1 / 2)],
      Inl (RenameFailed (NewNameConflicts ''red'')))"
  by (simp add: run_defs)


text \<open>
  C9. \<^verbatim>\<open>NDSI\<close> and \<^verbatim>\<open>MNDWI\<close> are both registered with the formula
  \<open>(green - swir1) / (green + swir1)\<close>. For every dataset, valid collection, output name
  and arithmetic the two calls do the same: when the renaming raises, both raise its
  error; when the renamed dataset has \<^verbatim>\<open>green\<close> and \<^verbatim>\<open>swir1\<close>, both store the same array,
  the formula's value on the two bands divided by \<open>1000\<close>, each under its output name;
  otherwise both raise the missing-band error.
\<close>

theorem ndsi_mndwi_same:
  "map_of index_dict ''NDSI'' = Some (Div (Sub green swir1) (Add green swir1)) \<and>
   map_of index_dict ''MNDWI'' = Some (Div (Sub green swir1) (Add green swir1)) \<and>
   (c \<in> {''ga_landsat_2'', ''ga_landsat_3'', ''ga_sentinel2_1''} \<longrightarrow>
      (case rename ds (present_bands ds (collection_bandnames c)) of
         Inl e \<Rightarrow>
           calculate_indices A ds (Some ''NDSI'') (Some c) cv = (ds, Inl (RenameFailed e)) \<and>
           calculate_indices A ds (Some ''MNDWI'') (Some c) cv = (ds, Inl (RenameFailed e))
       | Inr view \<Rightarrow>
           (case (map_of view ''green'', map_of view ''swir1'') of
              (Some g, Some s) \<Rightarrow>
                calculate_indices A ds (Some ''NDSI'') (Some c) cv =
                  (AList.update (output_band_name cv ''NDSI'')
                     (adiv A (asub A (adiv A g (alit A 1000)) (adiv A s (alit A 1000)))
                             (aadd A (adiv A g (alit A 1000)) (adiv A s (alit A 1000)))) ds,
                   Inr (AList.update (output_band_name cv ''NDSI'')
                     (adiv A (asub A (adiv A g (alit A 1000)) (adiv A s (alit A 1000)))
                             (aadd A (adiv A g (alit A 1000)) (adiv A s (alit A 1000)))) ds)) \<and>
                calculate_indices A ds (Some ''MNDWI'') (Some c) cv =
                  (AList.update (output_band_name cv ''MNDWI'')
                     (adiv A (asub A (adiv A g (alit A 1000)) (adiv A s (alit A 1000)))
                             (aadd A (adiv A g (alit A 1000)) (adiv A s (alit A 1000)))) ds,
                   Inr (AList.update (output_band_name cv ''MNDWI'')
                     (adiv A (asub A (adiv A g (alit A 1000)) (adiv A s (alit A 1000)))
                             (aadd A (adiv A g (alit A 1000)) (adiv A s (alit A 1000)))) ds))
            | _ \<Rightarrow>
                calculate_indices A ds (Some ''NDSI'') (Some c) cv =
                  (ds, Inl (Raised (BandsMissing ''NDSI''))) \<and>
                calculate_indices A ds (Some ''MNDWI'') (Some c) cv =
                  (ds, Inl (Raised (BandsMissing ''MNDWI''))))))"
proof -
  have ndsi: "map_of index_dict ''NDSI'' = Some (Div (Sub green swir1) (Add green swir1))"
    by (simp add: index_dict_def)
  have mndwi: "map_of index_dict ''MNDWI'' = Some (Div (Sub green swir1) (Add green swir1))"
    by (simp add: index_dict_def)
  have calls: "calculate_indices A ds (Some ''NDSI'') (Some c) cv =
        apply_index A ds ''NDSI'' (Div (Sub green swir1) (Add green swir1))
          (present_bands ds (collection_bandnames c)) cv"
      "calculate_indices A ds (Some ''MNDWI'') (Some c) cv =
        apply_index A ds ''MNDWI'' (Div (Sub green swir1) (Add green swir1))
          (present_bands ds (collection_bandnames c)) cv"
    if "c \<in> {''ga_landsat_2'', ''ga_landsat_3'', ''ga_sentinel2_1''}"
    using calculate_indices_valid [OF ndsi that] calculate_indices_valid [OF mndwi that]
    by blast+
  show ?thesis
  proof (intro conjI impI)
    show "map_of index_dict ''NDSI'' = Some (Div (Sub green swir1) (Add green swir1))"
      by (rule ndsi)
    show "map_of index_dict ''MNDWI'' = Some (Div (Sub green swir1) (Add green swir1))"
      by (rule mndwi)
  next
    assume valid: "c \<in> {''ga_landsat_2'', ''ga_landsat_3'', ''ga_sentinel2_1''}"
    note run = calls [OF valid]
    show "case rename ds (present_bands ds (collection_bandnames c)) of
         Inl e \<Rightarrow>
           calculate_indices A ds (Some ''NDSI'') (Some c) cv = (ds, Inl (RenameFailed e)) \<and>
           calculate_indices A ds (Some ''MNDWI'') (Some c) cv = (ds, Inl (RenameFailed e))
       | Inr view \<Rightarrow>
           (case (map_of view ''green'', map_of view ''swir1'') of
              (Some g, Some s) \<Rightarrow>
                calculate_indices A ds (Some ''NDSI'') (Some c) cv =
                  (AList.update (output_band_name cv ''NDSI'')
                     (adiv A (asub A (adiv A g (alit A 1000)) (adiv A s (alit A 1000)))
                             (aadd A (adiv A g (alit A 1000)) (adiv A s (alit A 1000)))) ds,
                   Inr (AList.update (output_band_name cv ''NDSI'')
                     (adiv A (asub A (adiv A g (alit A 1000)) (adiv A s (alit A 1000)))
                             (aadd A (adiv A g (alit A 1000)) (adiv A s (alit A 1000)))) ds)) \<and>
                calculate_indices A ds (Some ''MNDWI'') (Some c) cv =
                  (AList.update (output_band_name cv ''MNDWI'')
                     (adiv A (asub A (adiv A g (alit A 1000)) (adiv A s (alit A 1000)))
                             (aadd A (adiv A g (alit A 1000)) (adiv A s (alit A 1000)))) ds,
                   Inr (AList.update (output_band_name cv ''MNDWI'')
                     (adiv A (asub A (adiv A g (alit A 1000)) (adiv A s (alit A 1000)))
                             (aadd A (adiv A g (alit A 1000)) (adiv A s (alit A 1000)))) ds))
            | _ \<Rightarrow>
                calculate_indices A ds (Some ''NDSI'') (Some c) cv =
                  (ds, Inl (Raised (BandsMissing ''NDSI''))) \<and>
                calculate_indices A ds (Some ''MNDWI'') (Some c) cv =
                  (ds, Inl (Raised (BandsMissing ''MNDWI''))))"
    proof (cases "rename ds (present_bands ds (collection_bandnames c))")
      case (Inl e)
      then show ?thesis by (simp add: run apply_index_def)
    next
      case (Inr view)
      show ?thesis
      proof (cases "map_of view ''green''")
        case None
        with Inr show ?thesis by (simp add: run apply_index_def map_of_rescale)
      next
        case g: (Some g)
        show ?thesis
        proof (cases "map_of view ''swir1''")
          case None
          with Inr g show ?thesis by (simp add: run apply_index_def map_of_rescale)
        next
          case (Some s)
          with Inr g show ?thesis by (simp add: run apply_index_def map_of_rescale Let_def)
        qed
      qed
    qed
  qed
qed

theorem ndsi_mndwi_same_witness:
  "calculate_indices real_arith [(''green'', 2000), (''swir1'', 5000)]
     (Some ''NDSI'') (Some ''ga_landsat_2'') None =
     ([(''green'', 2000), (''swir1'', 5000), (''NDSI'', - (3 / 7))],
      Inr [(''green'', 2000), (''swir1'', 5000), (''NDSI'', - (3 / 7))]) \<and>
   calculate_indices real_arith [(''green'', 2000), (''swir1'', 5000)]
     (Some ''MNDWI'') (Some ''ga_landsat_2'') None =
     ([(''green'', 2000), (''swir1'', 5000), (''MNDWI'', - (3 / 7))],
      Inr [(''green'', 2000), (''swir1'', 5000), (''MNDWI'', - (3 / 7))])"
  using ndsi_mndwi_same [where c = "''ga_landsat_2''"
      and ds = "[(''green'', 2000), (''swir1'', 5000)]" and A = real_arith and cv = None]
  by (simp add: collection_bandnames_def rename_def rename_vars_Inr_iff output_band_name_def
      new_name_def)

text \<open>
  C10. Whenever the call raises, whatever the error, the caller's dataset is what it was
  before the call.
\<close>

theorem errors_leave_dataset_unchanged:
  "snd (calculate_indices A ds index collection custom_varname) = Inl e \<Longrightarrow>
   fst (calculate_indices A ds index collection custom_varname) = ds"
  using calculate_indices_cases [of A ds index collection custom_varname] by auto

theorem errors_leave_dataset_unchanged_witness:
  "snd (calculate_indices real_arith [(''nbart_nir'', 3000), (''nbart_red'', 1000)]
          (Some ''NDVI'') (Some ''ga_landsat_2'') None) = Inl (Raised (BandsMissing ''NDVI'')) \<and>
   fst (calculate_indices real_arith [(''nbart_nir'', 3000), (''nbart_red'', 1000)]
          (Some ''NDVI'') (Some ''ga_landsat_2'') None) = [(''nbart_nir'', 3000), (''nbart_red'', 1000)]"
proof -
  have h: "snd (calculate_indices real_arith [(''nbart_nir'', 3000), (''nbart_red'', 1000)]
          (Some ''NDVI'') (Some ''ga_landsat_2'') None) = Inl (Raised (BandsMissing ''NDVI''))"
    by (simp add: run_defs)
  from errors_leave_dataset_unchanged [OF h] h show ?thesis by simp
qed

end
